theory Spec2Isabelle
  imports Main "HOL-Library.Sublist"
begin

section \<open>Values, exceptions and the library the exporter calls\<close>

text \<open>
  The exporter works on whatever \<^verbatim>\<open>json.loads\<close> returns: \<^verbatim>\<open>None\<close>, booleans, integers,
  strings, lists and dicts. A dict is an association list in insertion order, read with
  \<open>map_of\<close>. Strings are byte strings in UTF-8, so \<^verbatim>\<open>.encode("utf-8")\<close> is the identity on
  them. JSON numbers are taken to be integers, as the packet and byte counts of the
  ruleset are.
\<close>

datatype json =
    JNull
  | JBool bool
  | JInt int
  | JStr string
  | JArr "json list"
  | JObj "(string \<times> json) list"

datatype pyexc =
    TypeError
  | KeyError string
  | AttributeError
  | ValueError
  | JSONDecodeError
  | OtherError string

text \<open>
  Library functions whose code is not part of the exporter are parameters of the model:
  \<^verbatim>\<open>json.loads\<close>, \<^verbatim>\<open>repr\<close> of a list or dict (what \<^verbatim>\<open>'{}'.format\<close> prints for one),
  the \<^verbatim>\<open>path\<close> attribute of \<^verbatim>\<open>urllib.parse.urlparse\<close>, the constant
  \<^verbatim>\<open>prometheus_client.CONTENT_TYPE_LATEST\<close> and \<^verbatim>\<open>traceback.format_exc\<close>.
  \<^verbatim>\<open>json.loads\<close> and \<^verbatim>\<open>urlparse\<close> can raise: \<^verbatim>\<open>urlparse\<close> raises \<^verbatim>\<open>ValueError\<close> on a target
  with an unbalanced bracket in its host part, such as \<^verbatim>\<open>http://[::1/metrics\<close>.
\<close>

record pylib =
  json_loads :: "string \<Rightarrow> pyexc + json"
  py_repr :: "json \<Rightarrow> string"
  urlparse_path :: "string \<Rightarrow> pyexc + string"
  CONTENT_TYPE_LATEST :: string
  format_exc :: "pyexc \<Rightarrow> string"

text \<open>The triple \<^verbatim>\<open>rc, output, error\<close> that \<^verbatim>\<open>ctx.nft.cmd("list ruleset")\<close> returns.\<close>

record nft_reply =
  nft_rc :: int
  nft_output :: string
  nft_error :: string

text \<open>
  The mutable state: the fields \<^verbatim>\<open>ruleset\<close> and \<^verbatim>\<open>metrics\<close> of the global \<^verbatim>\<open>ctx\<close> (both
  \<^verbatim>\<open>None\<close> after \<^verbatim>\<open>Context()\<close>), and the messages handed to \<^verbatim>\<open>logging\<close>.
\<close>

datatype loglevel = DEBUG | ERROR

record state =
  ctx_ruleset :: json
  ctx_metrics :: "string list option"
  logged :: "(loglevel \<times> string) list"

definition Context :: state where
  "Context = \<lparr>ctx_ruleset = JNull, ctx_metrics = None, logged = []\<rparr>"

text \<open>A procedure either returns or raises; the state reached so far is kept in both cases.\<close>

datatype outcome = Normal state | Raised pyexc state

definition then_do :: "outcome \<Rightarrow> (state \<Rightarrow> outcome) \<Rightarrow> outcome" where
  "then_do m f = (case m of Normal s \<Rightarrow> f s | Raised e s \<Rightarrow> Raised e s)"

definition rbind :: "pyexc + 'a \<Rightarrow> ('a \<Rightarrow> pyexc + 'b) \<Rightarrow> pyexc + 'b" where
  "rbind m f = (case m of Inl e \<Rightarrow> Inl e | Inr x \<Rightarrow> f x)"

definition logging :: "loglevel \<Rightarrow> string \<Rightarrow> state \<Rightarrow> state" where
  "logging lvl msg s = s\<lparr>logged := logged s @ [(lvl, msg)]\<rparr>"

section \<open>Python operators used by the exporter\<close>

text \<open>\<^verbatim>\<open>sub in s\<close> on two strings: \<open>sub\<close> occurs in \<open>s\<close> as a contiguous run.\<close>

fun str_contains :: "string \<Rightarrow> string \<Rightarrow> bool" where
  "str_contains sub [] = (sub = [])"
| "str_contains sub (c # cs) = (prefix sub (c # cs) \<or> str_contains sub cs)"

text \<open>
  \<^verbatim>\<open>type in o\<close> for a string \<open>type\<close>: key membership on a dict, element membership on a
  list, substring test on a string, \<^verbatim>\<open>TypeError\<close> on \<^verbatim>\<open>None\<close>, a boolean or a number.
\<close>

fun py_in :: "string \<Rightarrow> json \<Rightarrow> pyexc + bool" where
  "py_in k (JObj kvs) = Inr (k \<in> set (map fst kvs))"
| "py_in k (JArr xs) = Inr (JStr k \<in> set xs)"
| "py_in k (JStr s) = Inr (str_contains k s)"
| "py_in k JNull = Inl TypeError"
| "py_in k (JBool b) = Inl TypeError"
| "py_in k (JInt n) = Inl TypeError"

text \<open>
  \<^verbatim>\<open>for o in v\<close>: the elements of a list, the keys of a dict, the characters of a string,
  \<^verbatim>\<open>TypeError\<close> otherwise.
\<close>

fun py_iter :: "json \<Rightarrow> pyexc + json list" where
  "py_iter (JArr xs) = Inr xs"
| "py_iter (JObj kvs) = Inr (map (\<lambda>kv. JStr (fst kv)) kvs)"
| "py_iter (JStr s) = Inr (map (\<lambda>c. JStr [c]) s)"
| "py_iter JNull = Inl TypeError"
| "py_iter (JBool b) = Inl TypeError"
| "py_iter (JInt n) = Inl TypeError"

text \<open>
  \<^verbatim>\<open>v[k]\<close> for a string \<open>k\<close>: the value on a dict that has the key, \<^verbatim>\<open>KeyError\<close> on a
  dict that has not, \<^verbatim>\<open>TypeError\<close> on every other value.
\<close>

fun py_getitem :: "json \<Rightarrow> string \<Rightarrow> pyexc + json" where
  "py_getitem (JObj kvs) k = (case map_of kvs k of None \<Rightarrow> Inl (KeyError k) | Some v \<Rightarrow> Inr v)"
| "py_getitem (JArr xs) k = Inl TypeError"
| "py_getitem (JStr s) k = Inl TypeError"
| "py_getitem JNull k = Inl TypeError"
| "py_getitem (JBool b) k = Inl TypeError"
| "py_getitem (JInt n) k = Inl TypeError"

fun digits_of :: "nat \<Rightarrow> string" where
  "digits_of n =
     (if n < 10 then [''0123456789'' ! n]
      else digits_of (n div 10) @ [''0123456789'' ! (n mod 10)])"

definition str_of_int :: "int \<Rightarrow> string" where
  "str_of_int i = (if i < 0 then ''-'' @ digits_of (nat (- i)) else digits_of (nat i))"

text \<open>What a \<^verbatim>\<open>{}\<close> field of \<^verbatim>\<open>str.format\<close> prints: \<^verbatim>\<open>str(v)\<close>.\<close>

fun py_str :: "pylib \<Rightarrow> json \<Rightarrow> string" where
  "py_str L (JStr s) = s"
| "py_str L (JInt n) = str_of_int n"
| "py_str L (JBool b) = (if b then ''True'' else ''False'')"
| "py_str L JNull = ''None''"
| "py_str L (JArr xs) = py_repr L (JArr xs)"
| "py_str L (JObj kvs) = py_repr L (JObj kvs)"

text \<open>\<^verbatim>\<open>sep.join(xs)\<close>.\<close>

fun py_join :: "string \<Rightarrow> string list \<Rightarrow> string" where
  "py_join sep [] = []"
| "py_join sep [x] = x"
| "py_join sep (x # y # ys) = x @ sep @ py_join sep (y # ys)"

section \<open>Loading the ruleset\<close>

text \<open>The expression \<^verbatim>\<open>json.loads(output)["nftables"]\<close>.\<close>

definition parse_ruleset :: "pylib \<Rightarrow> string \<Rightarrow> pyexc + json" where
  "parse_ruleset L out = rbind (json_loads L out) (\<lambda>doc. py_getitem doc ''nftables'')"

definition load_nft_ruleset :: "pylib \<Rightarrow> nft_reply \<Rightarrow> state \<Rightarrow> outcome" where
  "load_nft_ruleset L r s =
     (let s1 = logging DEBUG ''loading nft ruleset'' s;
          s2 = (if nft_rc r \<noteq> 0 then logging ERROR (nft_error r) s1 else s1);
          s3 = logging DEBUG (nft_output r) s2
      in case parse_ruleset L (nft_output r) of
           Inl e \<Rightarrow> Raised e s3
         | Inr v \<Rightarrow> Normal (s3\<lparr>ctx_ruleset := v\<rparr>))"

section \<open>Generating the metric lines\<close>

fun find_objs_loop :: "string \<Rightarrow> json list \<Rightarrow> pyexc + json list" where
  "find_objs_loop type [] = Inr []"
| "find_objs_loop type (obj # os) =
     (case py_in type obj of
        Inl e \<Rightarrow> Inl e
      | Inr b \<Rightarrow>
          (case find_objs_loop type os of
             Inl e \<Rightarrow> Inl e
           | Inr found \<Rightarrow> Inr (if b then obj # found else found)))"

definition find_objs :: "string \<Rightarrow> state \<Rightarrow> pyexc + json list" where
  "find_objs type s = rbind (py_iter (ctx_ruleset s)) (find_objs_loop type)"

text \<open>
  The argument of each \<^verbatim>\<open>ctx.metrics.append\<close>: the fields are read left to right, and the
  first failing read decides the exception.
\<close>

definition table_metric :: "pylib \<Rightarrow> json \<Rightarrow> pyexc + string" where
  \<open>table_metric L i =
     rbind (rbind (py_getitem i ''table'') (\<lambda>t. py_getitem t ''family'')) (\<lambda>family.
     rbind (rbind (py_getitem i ''table'') (\<lambda>t. py_getitem t ''name'')) (\<lambda>name.
     Inr (''nft_table{family="'' @ py_str L family @ ''", name="'' @ py_str L name
          @ ''"} 1'')))\<close>

definition chain_metric :: "pylib \<Rightarrow> json \<Rightarrow> pyexc + string" where
  \<open>chain_metric L i =
     rbind (rbind (py_getitem i ''chain'') (\<lambda>c. py_getitem c ''family'')) (\<lambda>family.
     rbind (rbind (py_getitem i ''chain'') (\<lambda>c. py_getitem c ''table'')) (\<lambda>table.
     rbind (rbind (py_getitem i ''chain'') (\<lambda>c. py_getitem c ''name'')) (\<lambda>name.
     Inr (''nft_chain{family="'' @ py_str L family @ ''", table="'' @ py_str L table
          @ ''", name="'' @ py_str L name @ ''"} 1''))))\<close>

definition counter_metric :: "pylib \<Rightarrow> string \<Rightarrow> string \<Rightarrow> json \<Rightarrow> pyexc + string" where
  \<open>counter_metric L metric field i =
     rbind (rbind (py_getitem i ''counter'') (\<lambda>c. py_getitem c ''family'')) (\<lambda>family.
     rbind (rbind (py_getitem i ''counter'') (\<lambda>c. py_getitem c ''table'')) (\<lambda>table.
     rbind (rbind (py_getitem i ''counter'') (\<lambda>c. py_getitem c ''name'')) (\<lambda>name.
     rbind (rbind (py_getitem i ''counter'') (\<lambda>c. py_getitem c field)) (\<lambda>val.
     Inr (metric @ ''{family="'' @ py_str L family @ ''", table="'' @ py_str L table
          @ ''", name="'' @ py_str L name @ ''"} '' @ py_str L val)))))\<close>

definition counter_packets_metric :: "pylib \<Rightarrow> json \<Rightarrow> pyexc + string" where
  "counter_packets_metric L i = counter_metric L ''nft_counter_packets'' ''packets'' i"

definition counter_bytes_metric :: "pylib \<Rightarrow> json \<Rightarrow> pyexc + string" where
  "counter_bytes_metric L i = counter_metric L ''nft_counter_bytes'' ''bytes'' i"

text \<open>
  \<^verbatim>\<open>ctx.metrics.append(line)\<close>: the attribute is looked up before the argument is
  evaluated, so \<^verbatim>\<open>ctx.metrics = None\<close> raises \<^verbatim>\<open>AttributeError\<close> first.
\<close>

definition metrics_append :: "(pyexc + string) \<Rightarrow> state \<Rightarrow> outcome" where
  "metrics_append arg s =
     (case ctx_metrics s of
        None \<Rightarrow> Raised AttributeError s
      | Some ms \<Rightarrow>
          (case arg of
             Inl e \<Rightarrow> Raised e s
           | Inr line \<Rightarrow> Normal (s\<lparr>ctx_metrics := Some (ms @ [line])\<rparr>)))"

fun table_loop :: "pylib \<Rightarrow> json list \<Rightarrow> state \<Rightarrow> outcome" where
  "table_loop L [] s = Normal s"
| "table_loop L (i # rest) s = then_do (metrics_append (table_metric L i) s) (table_loop L rest)"

definition generate_table_metrics :: "pylib \<Rightarrow> state \<Rightarrow> outcome" where
  "generate_table_metrics L s =
     (case find_objs ''table'' s of Inl e \<Rightarrow> Raised e s | Inr objs \<Rightarrow> table_loop L objs s)"

fun chain_loop :: "pylib \<Rightarrow> json list \<Rightarrow> state \<Rightarrow> outcome" where
  "chain_loop L [] s = Normal s"
| "chain_loop L (i # rest) s = then_do (metrics_append (chain_metric L i) s) (chain_loop L rest)"

definition generate_chain_metrics :: "pylib \<Rightarrow> state \<Rightarrow> outcome" where
  "generate_chain_metrics L s =
     (case find_objs ''chain'' s of Inl e \<Rightarrow> Raised e s | Inr objs \<Rightarrow> chain_loop L objs s)"

fun counter_loop :: "pylib \<Rightarrow> json list \<Rightarrow> state \<Rightarrow> outcome" where
  "counter_loop L [] s = Normal s"
| "counter_loop L (i # rest) s =
     then_do (then_do (metrics_append (counter_packets_metric L i) s)
                      (metrics_append (counter_bytes_metric L i)))
             (counter_loop L rest)"

definition generate_counter_metrics :: "pylib \<Rightarrow> state \<Rightarrow> outcome" where
  "generate_counter_metrics L s =
     (case find_objs ''counter'' s of Inl e \<Rightarrow> Raised e s | Inr objs \<Rightarrow> counter_loop L objs s)"

definition generate_metrics :: "pylib \<Rightarrow> nft_reply \<Rightarrow> state \<Rightarrow> outcome" where
  "generate_metrics L r s =
     then_do (then_do (then_do (load_nft_ruleset L r (s\<lparr>ctx_metrics := Some []\<rparr>))
                               (generate_table_metrics L))
                      (generate_chain_metrics L))
             (generate_counter_metrics L)"

section \<open>The HTTP handler and the run-once mode\<close>

text \<open>
  What the handler sends, in order: \<^verbatim>\<open>send_response\<close>, \<^verbatim>\<open>send_header\<close>, \<^verbatim>\<open>end_headers\<close>
  and the bytes given to \<^verbatim>\<open>wfile.write\<close>. The \<^verbatim>\<open>Server\<close> and \<^verbatim>\<open>Date\<close> headers that
  \<^verbatim>\<open>send_response\<close> adds by itself are left out.
\<close>

datatype event = Status nat | Header string string | EndHeaders | Body string

text \<open>
  The argument of \<^verbatim>\<open>wfile.write\<close> is either \<^verbatim>\<open>bytes\<close> or \<^verbatim>\<open>str\<close>. The socket file of
  \<^verbatim>\<open>http.server\<close> takes bytes only and raises \<^verbatim>\<open>TypeError\<close> on a \<^verbatim>\<open>str\<close>, sending nothing.
\<close>

datatype payload = Bytes string | Str string

definition encode_utf8 :: "string \<Rightarrow> payload" where
  "encode_utf8 s = Bytes s"

fun wfile_write :: "payload \<Rightarrow> event list \<Rightarrow> pyexc + event list" where
  "wfile_write (Bytes b) sent = Inr (sent @ [Body b])"
| "wfile_write (Str s) sent = Inl TypeError"

definition index_page :: string where
  "index_page =
     ''<html>\<newline>'' @
     ''            <head><title>prometheus nftables exporter</title></head>\<newline>'' @
     ''            <body>\<newline>'' @
     ''            <h1>prometheus nftables exporter</h1>\<newline>'' @
     ''            <p>Visit <code>/metrics</code> to use.</p>\<newline>'' @
     ''            </body>\<newline>'' @
     ''            </html>''"

text \<open>
  The \<^verbatim>\<open>except Exception\<close> branch of \<^verbatim>\<open>do_GET\<close>, entered with what has been sent so far.
  It passes the \<^verbatim>\<open>str\<close> returned by \<^verbatim>\<open>traceback.format_exc()\<close> to \<^verbatim>\<open>wfile.write\<close>; an
  exception raised here leaves \<^verbatim>\<open>do_GET\<close>.
\<close>

definition except_branch :: "pylib \<Rightarrow> pyexc \<Rightarrow> event list \<Rightarrow> state \<Rightarrow> event list \<times> outcome" where
  "except_branch L e sent s =
     (let sent1 = sent @ [Status 500];
          sent2 = sent1 @ [EndHeaders]
      in case wfile_write (Str (format_exc L e)) sent2 of
           Inl e' \<Rightarrow> (sent2, Raised e' s)
         | Inr sent3 \<Rightarrow> (sent3, Normal s))"

text \<open>The \<^verbatim>\<open>try\<close> block of \<^verbatim>\<open>do_GET\<close>; \<^verbatim>\<open>"\n".join(None)\<close> raises \<^verbatim>\<open>TypeError\<close>.\<close>

definition try_block :: "pylib \<Rightarrow> nft_reply \<Rightarrow> state \<Rightarrow> event list \<times> outcome" where
  "try_block L r s =
     (case generate_metrics L r s of
        Raised e s' \<Rightarrow> except_branch L e [] s'
      | Normal s' \<Rightarrow>
          (let sent1 = [Status 200];
               sent2 = sent1 @ [Header ''Content-Type'' (CONTENT_TYPE_LATEST L)];
               sent3 = sent2 @ [EndHeaders]
           in case ctx_metrics s' of
                None \<Rightarrow> except_branch L TypeError sent3 s'
              | Some ms \<Rightarrow>
                  (case wfile_write (encode_utf8 (py_join ''\<newline>'' ms)) sent3 of
                     Inl e \<Rightarrow> except_branch L e sent3 s'
                   | Inr sent4 \<Rightarrow> (sent4, Normal s'))))"

text \<open>
  \<^verbatim>\<open>do_GET\<close>. The call of \<^verbatim>\<open>urlparse\<close> is outside the \<^verbatim>\<open>try\<close>: when it raises, nothing
  has been sent and the exception leaves the handler.
\<close>

definition do_GET :: "pylib \<Rightarrow> nft_reply \<Rightarrow> string \<Rightarrow> state \<Rightarrow> event list \<times> outcome" where
  "do_GET L r path s =
     (case urlparse_path L path of
        Inl e \<Rightarrow> ([], Raised e s)
      | Inr url_path \<Rightarrow>
          if url_path = ''/metrics'' then try_block L r s
          else if url_path = ''/'' then
            (case wfile_write (encode_utf8 index_page) [Status 200, EndHeaders] of
               Inl e \<Rightarrow> ([Status 200, EndHeaders], Raised e s)
             | Inr sent \<Rightarrow> (sent, Normal s))
          else ([Status 404, EndHeaders], Normal s))"

text \<open>
  The \<^verbatim>\<open>--run-once\<close> branch of \<^verbatim>\<open>main\<close>: what is printed and the exit status. An
  exception that nothing catches ends the interpreter with status 1 and prints nothing
  on standard output.
\<close>

definition run_once :: "pylib \<Rightarrow> nft_reply \<Rightarrow> state \<Rightarrow> string \<times> nat" where
  "run_once L r s =
     (case generate_metrics L r s of
        Raised e s' \<Rightarrow> ('''', 1)
      | Normal s' \<Rightarrow>
          (case ctx_metrics s' of
             None \<Rightarrow> ('''', 1)
           | Some ms \<Rightarrow> (py_join ''\<newline>'' ms @ ''\<newline>'', 0)))"

section \<open>Vocabulary of the properties and sample inputs\<close>

text \<open>The entities of a snapshot on which \<^verbatim>\<open>type in o\<close> is true, in snapshot order.\<close>

definition kind_objs :: "string \<Rightarrow> json list \<Rightarrow> json list" where
  "kind_objs type ents = filter (\<lambda>obj. py_in type obj = Inr True) ents"

text \<open>The metric name of a line: the text before its first brace.\<close>

definition metric_name :: "string \<Rightarrow> string" where
  "metric_name line = takeWhile (\<lambda>c. c \<noteq> CHR ''{'') line"

text \<open>The lines of a list of counters, each given as its packets line and its bytes line.\<close>

definition counter_lines :: "(string \<times> string) list \<Rightarrow> string list" where
  "counter_lines pbs = concat (map (\<lambda>pb. [fst pb, snd pb]) pbs)"

text \<open>A value is a dict that has every key of a list.\<close>

definition has_fields :: "json \<Rightarrow> string list \<Rightarrow> bool" where
  "has_fields v ks = (case v of JObj kvs \<Rightarrow> list_all (\<lambda>k. k \<in> set (map fst kvs)) ks | _ \<Rightarrow> False)"

text \<open>If a dict has the key \<open>kind\<close>, the value under it has the fields \<open>ks\<close>.\<close>

definition field_ok :: "(string \<times> json) list \<Rightarrow> string \<Rightarrow> string list \<Rightarrow> bool" where
  "field_ok kvs kind ks = (case map_of kvs kind of None \<Rightarrow> True | Some v \<Rightarrow> has_fields v ks)"

text \<open>
  A well-formed entity is a dict; where it is tagged \<^verbatim>\<open>table\<close>, \<^verbatim>\<open>chain\<close> or \<^verbatim>\<open>counter\<close>,
  the tagged value is a dict with the fields the generator of that kind reads. A dict
  with none of the three tags (a rule, a set, the \<^verbatim>\<open>metainfo\<close> entry) is well-formed.
\<close>

definition wf_entity :: "json \<Rightarrow> bool" where
  "wf_entity e =
     (case e of
        JObj kvs \<Rightarrow>
          field_ok kvs ''table'' [''family'', ''name''] \<and>
          field_ok kvs ''chain'' [''family'', ''table'', ''name''] \<and>
          field_ok kvs ''counter'' [''family'', ''table'', ''name'', ''packets'', ''bytes'']
      | _ \<Rightarrow> False)"

text \<open>
  Sample inputs, used to run the model on concrete data: seven entities, a stand-in for
  \<^verbatim>\<open>json.loads\<close> that decodes the four documents below and rejects everything else, a
  stand-in for \<^verbatim>\<open>urlparse\<close> that raises \<^verbatim>\<open>ValueError\<close> on the target
  \<^verbatim>\<open>http://[::1/metrics\<close> and cuts every other target at the first \<^verbatim>\<open>?\<close> or \<^verbatim>\<open>#\<close>, a reply
  of the engine that lists a counter, the metainfo entry, a chain and a table, in this
  order, and a reply that lists two counters, two tables and two chains, interleaved.
\<close>

definition metainfo_entity :: json where
  "metainfo_entity = JObj [(''metainfo'', JObj [(''json_schema_version'', JInt 1)])]"

definition table_entity :: json where
  "table_entity = JObj [(''table'', JObj [(''family'', JStr ''ip''), (''name'', JStr ''filter'')])]"

definition chain_entity :: json where
  "chain_entity = JObj [(''chain'', JObj [(''family'', JStr ''ip''), (''table'', JStr ''filter''),
                                         (''name'', JStr ''input'')])]"

definition counter_entity :: json where
  "counter_entity = JObj [(''counter'', JObj [(''family'', JStr ''inet''), (''table'', JStr ''t1''),
                                             (''name'', JStr ''c1''), (''packets'', JInt 42),
                                             (''bytes'', JInt 1000)])]"

definition table_nat_entity :: json where
  "table_nat_entity = JObj [(''table'', JObj [(''family'', JStr ''inet''), (''name'', JStr ''nat'')])]"

definition chain_output_entity :: json where
  "chain_output_entity =
     JObj [(''chain'', JObj [(''family'', JStr ''inet''), (''table'', JStr ''nat''),
                            (''name'', JStr ''output'')])]"

definition counter_c2_entity :: json where
  "counter_c2_entity =
     JObj [(''counter'', JObj [(''family'', JStr ''ip''), (''table'', JStr ''filter''),
                              (''name'', JStr ''c2''), (''packets'', JInt 7),
                              (''bytes'', JInt 300)])]"

definition sample_loads :: "string \<Rightarrow> pyexc + json" where
  \<open>sample_loads text =
     (if text = ''{"nftables": []}'' then Inr (JObj [(''nftables'', JArr [])])
      else if text = ''{"nftables": [{"metainfo": {"json_schema_version": 1}}]}''
        then Inr (JObj [(''nftables'', JArr [metainfo_entity])])
      else if text = ''{"nftables": [{"counter": {"family": "inet", "table": "t1", "name": "c1", "packets": 42, "bytes": 1000}}, {"metainfo": {"json_schema_version": 1}}, {"chain": {"family": "ip", "table": "filter", "name": "input"}}, {"table": {"family": "ip", "name": "filter"}}]}''
        then Inr (JObj [(''nftables'',
                         JArr [counter_entity, metainfo_entity, chain_entity, table_entity])])
      else if text = ''{"nftables": [{"counter": {"family": "inet", "table": "t1", "name": "c1", "packets": 42, "bytes": 1000}}, {"table": {"family": "ip", "name": "filter"}}, {"chain": {"family": "ip", "table": "filter", "name": "input"}}, {"counter": {"family": "ip", "table": "filter", "name": "c2", "packets": 7, "bytes": 300}}, {"table": {"family": "inet", "name": "nat"}}, {"chain": {"family": "inet", "table": "nat", "name": "output"}}]}''
        then Inr (JObj [(''nftables'',
                         JArr [counter_entity, table_entity, chain_entity,
                               counter_c2_entity, table_nat_entity, chain_output_entity])])
      else Inl JSONDecodeError)\<close>

definition sample_lib :: pylib where
  "sample_lib =
     \<lparr>json_loads = sample_loads,
      py_repr = (\<lambda>v. ''?''),
      urlparse_path =
        (\<lambda>target. if target = ''http://[::1/metrics'' then Inl ValueError
                  else Inr (takeWhile (\<lambda>c. c \<noteq> CHR ''?'' \<and> c \<noteq> CHR ''#'') target)),
      CONTENT_TYPE_LATEST = ''text/plain; version=0.0.4; charset=utf-8'',
      format_exc = (\<lambda>e. ''Traceback (most recent call last):'')\<rparr>"

definition interleaved_reply :: nft_reply where
  \<open>interleaved_reply =
     \<lparr>nft_rc = 0,
      nft_output = ''{"nftables": [{"counter": {"family": "inet", "table": "t1", "name": "c1", "packets": 42, "bytes": 1000}}, {"table": {"family": "ip", "name": "filter"}}, {"chain": {"family": "ip", "table": "filter", "name": "input"}}, {"counter": {"family": "ip", "table": "filter", "name": "c2", "packets": 7, "bytes": 300}}, {"table": {"family": "inet", "name": "nat"}}, {"chain": {"family": "inet", "table": "nat", "name": "output"}}]}'',
      nft_error = ''''\<rparr>\<close>

definition mixed_reply :: nft_reply where
  \<open>mixed_reply =
     \<lparr>nft_rc = 0,
      nft_output = ''{"nftables": [{"counter": {"family": "inet", "table": "t1", "name": "c1", "packets": 42, "bytes": 1000}}, {"metainfo": {"json_schema_version": 1}}, {"chain": {"family": "ip", "table": "filter", "name": "input"}}, {"table": {"family": "ip", "name": "filter"}}]}'',
      nft_error = ''''\<rparr>\<close>

text \<open>The content of \<^verbatim>\<open>ctx.metrics\<close> after a call that returned.\<close>

definition metrics_of :: "outcome \<Rightarrow> string list option" where
  "metrics_of out = (case out of Normal s \<Rightarrow> ctx_metrics s | Raised e s \<Rightarrow> None)"

text \<open>The state that \<^verbatim>\<open>generate_metrics\<close> reaches on \<open>mixed_reply\<close> from the initial state.\<close>

definition mixed_final :: state where
  \<open>mixed_final =
     \<lparr>ctx_ruleset = JArr [counter_entity, metainfo_entity, chain_entity, table_entity],
      ctx_metrics = Some [''nft_table{family="ip", name="filter"} 1'',
                          ''nft_chain{family="ip", table="filter", name="input"} 1'',
                          ''nft_counter_packets{family="inet", table="t1", name="c1"} 42'',
                          ''nft_counter_bytes{family="inet", table="t1", name="c1"} 1000''],
      logged = [(DEBUG, ''loading nft ruleset''), (DEBUG, nft_output mixed_reply)]\<rparr>\<close>

text \<open>
  The reading of "order of appearance" under which the records of one entity stay
  together: each entity, in snapshot order, contributes its table line, its chain line
  and its two counter lines, where it has them.
\<close>

definition entity_records :: "pylib \<Rightarrow> json \<Rightarrow> string list" where
  "entity_records L e =
     (case table_metric L e of Inl x \<Rightarrow> [] | Inr l \<Rightarrow> [l]) @
     (case chain_metric L e of Inl x \<Rightarrow> [] | Inr l \<Rightarrow> [l]) @
     (case counter_packets_metric L e of
        Inl x \<Rightarrow> []
      | Inr p \<Rightarrow> (case counter_bytes_metric L e of Inl x \<Rightarrow> [] | Inr b \<Rightarrow> [p, b]))"

text \<open>The state that \<^verbatim>\<open>generate_metrics\<close> reaches on \<open>interleaved_reply\<close> from the initial state.\<close>

definition interleaved_final :: state where
  \<open>interleaved_final =
     \<lparr>ctx_ruleset = JArr [counter_entity, table_entity, chain_entity,
                          counter_c2_entity, table_nat_entity, chain_output_entity],
      ctx_metrics = Some [''nft_table{family="ip", name="filter"} 1'',
                          ''nft_table{family="inet", name="nat"} 1'',
                          ''nft_chain{family="ip", table="filter", name="input"} 1'',
                          ''nft_chain{family="inet", table="nat", name="output"} 1'',
                          ''nft_counter_packets{family="inet", table="t1", name="c1"} 42'',
                          ''nft_counter_bytes{family="inet", table="t1", name="c1"} 1000'',
                          ''nft_counter_packets{family="ip", table="filter", name="c2"} 7'',
                          ''nft_counter_bytes{family="ip", table="filter", name="c2"} 300''],
      logged = [(DEBUG, ''loading nft ruleset''), (DEBUG, nft_output interleaved_reply)]\<rparr>\<close>

definition in_snapshot_order :: "pylib \<Rightarrow> json list \<Rightarrow> string list" where
  "in_snapshot_order L ents = concat (map (entity_records L) ents)"

text \<open>A reply of the engine for a ruleset with no entity.\<close>

definition empty_reply :: nft_reply where
  \<open>empty_reply = \<lparr>nft_rc = 0, nft_output = ''{"nftables": []}'', nft_error = ''''\<rparr>\<close>

text \<open>
  Two states agree on what \<^verbatim>\<open>ctx\<close> holds; the log is write-only and is left out. Two
  outcomes agree when both return in such states or both raise the same exception.
\<close>

definition same_ctx :: "state \<Rightarrow> state \<Rightarrow> bool" where
  "same_ctx s t = (ctx_ruleset s = ctx_ruleset t \<and> ctx_metrics s = ctx_metrics t)"

fun same_outcome :: "outcome \<Rightarrow> outcome \<Rightarrow> bool" where
  "same_outcome (Normal s) (Normal t) = same_ctx s t"
| "same_outcome (Raised e s) (Raised f t) = (e = f)"
| "same_outcome (Normal s) (Raised f t) = False"
| "same_outcome (Raised e s) (Normal t) = False"

text \<open>The state in which a call ended.\<close>

definition final_state :: "outcome \<Rightarrow> state" where
  "final_state out = (case out of Normal s \<Rightarrow> s | Raised e s \<Rightarrow> s)"

text \<open>The label-value escaping of the exposition format, as the specification words it.\<close>

definition escape_label_value :: "string \<Rightarrow> string" where
  "escape_label_value v =
     concat (map (\<lambda>c. if c = CHR 0x5C then [CHR 0x5C, CHR 0x5C]
                       else if c = CHR 0x22 then [CHR 0x5C, CHR 0x22]
                       else if c = CHR 0x0A then [CHR 0x5C, CHR ''n'']
                       else [c]) v)"

text \<open>A table whose name holds a double quote.\<close>

definition quoted_table_entity :: json where
  \<open>quoted_table_entity =
     JObj [(''table'', JObj [(''family'', JStr ''ip''), (''name'', JStr ''a"b'')])]\<close>

text \<open>
  Two replies of a failing engine: status 1 with a diagnostic, once with no output and
  once with an output that parses.
\<close>

definition failed_reply :: nft_reply where
  "failed_reply = \<lparr>nft_rc = 1, nft_output = '''', nft_error = ''Operation not permitted''\<rparr>"

definition failed_reply_with_output :: nft_reply where
  \<open>failed_reply_with_output =
     \<lparr>nft_rc = 1, nft_output = ''{"nftables": []}'', nft_error = ''Operation not permitted''\<rparr>\<close>

section \<open>Properties\<close>

lemma find_objs_loop_Inr:
  "find_objs_loop type ents = Inr found \<Longrightarrow> found = kind_objs type ents"
proof (induction ents arbitrary: found)
  case Nil
  then show ?case by (simp add: kind_objs_def)
next
  case (Cons obj ents)
  then show ?case
    by (auto simp: kind_objs_def split: sum.splits if_splits)
qed

lemma metrics_append_Normal:
  "metrics_append arg s = Normal s' \<Longrightarrow>
     \<exists>acc line. ctx_metrics s = Some acc \<and> arg = Inr line \<and> s' = s\<lparr>ctx_metrics := Some (acc @ [line])\<rparr>"
  by (auto simp: metrics_append_def split: option.splits sum.splits)

lemma then_do_Normal:
  "then_do m f = Normal s' \<Longrightarrow> \<exists>s1. m = Normal s1 \<and> f s1 = Normal s'"
  by (cases m) (auto simp: then_do_def)

lemma table_loop_Normal:
  "table_loop L objs s = Normal s' \<Longrightarrow> ctx_metrics s = Some acc \<Longrightarrow>
     \<exists>lines. list_all2 (\<lambda>i l. table_metric L i = Inr l) objs lines \<and>
             s' = s\<lparr>ctx_metrics := Some (acc @ lines)\<rparr>"
proof (induction objs arbitrary: s acc)
  case Nil
  then show ?case by simp
next
  case (Cons i rest)
  from Cons.prems(1) obtain s1 where
    a: "metrics_append (table_metric L i) s = Normal s1" and b: "table_loop L rest s1 = Normal s'"
    by (auto dest: then_do_Normal)
  from metrics_append_Normal [OF a] Cons.prems(2) obtain line where
    l: "table_metric L i = Inr line" and s1: "s1 = s\<lparr>ctx_metrics := Some (acc @ [line])\<rparr>"
    by auto
  from Cons.IH [OF b, of "acc @ [line]"] s1 obtain lines where
    r: "list_all2 (\<lambda>i l. table_metric L i = Inr l) rest lines" and
    s': "s' = s1\<lparr>ctx_metrics := Some ((acc @ [line]) @ lines)\<rparr>"
    by auto
  have "list_all2 (\<lambda>i l. table_metric L i = Inr l) (i # rest) (line # lines)"
    using l r by simp
  moreover have "s' = s\<lparr>ctx_metrics := Some (acc @ line # lines)\<rparr>"
    using s' s1 by simp
  ultimately show ?case by blast
qed

lemma chain_loop_Normal:
  "chain_loop L objs s = Normal s' \<Longrightarrow> ctx_metrics s = Some acc \<Longrightarrow>
     \<exists>lines. list_all2 (\<lambda>i l. chain_metric L i = Inr l) objs lines \<and>
             s' = s\<lparr>ctx_metrics := Some (acc @ lines)\<rparr>"
proof (induction objs arbitrary: s acc)
  case Nil
  then show ?case by simp
next
  case (Cons i rest)
  from Cons.prems(1) obtain s1 where
    a: "metrics_append (chain_metric L i) s = Normal s1" and b: "chain_loop L rest s1 = Normal s'"
    by (auto dest: then_do_Normal)
  from metrics_append_Normal [OF a] Cons.prems(2) obtain line where
    l: "chain_metric L i = Inr line" and s1: "s1 = s\<lparr>ctx_metrics := Some (acc @ [line])\<rparr>"
    by auto
  from Cons.IH [OF b, of "acc @ [line]"] s1 obtain lines where
    r: "list_all2 (\<lambda>i l. chain_metric L i = Inr l) rest lines" and
    s': "s' = s1\<lparr>ctx_metrics := Some ((acc @ [line]) @ lines)\<rparr>"
    by auto
  have "list_all2 (\<lambda>i l. chain_metric L i = Inr l) (i # rest) (line # lines)"
    using l r by simp
  moreover have "s' = s\<lparr>ctx_metrics := Some (acc @ line # lines)\<rparr>"
    using s' s1 by simp
  ultimately show ?case by blast
qed

lemma counter_loop_Normal:
  "counter_loop L objs s = Normal s' \<Longrightarrow> ctx_metrics s = Some acc \<Longrightarrow>
     \<exists>pbs. list_all2 (\<lambda>i pb. counter_packets_metric L i = Inr (fst pb) \<and>
                              counter_bytes_metric L i = Inr (snd pb)) objs pbs \<and>
           s' = s\<lparr>ctx_metrics := Some (acc @ counter_lines pbs)\<rparr>"
proof (induction objs arbitrary: s acc)
  case Nil
  then show ?case by (simp add: counter_lines_def)
next
  case (Cons i rest)
  from Cons.prems(1) obtain s1 s2 where
    a: "metrics_append (counter_packets_metric L i) s = Normal s1" and
    b: "metrics_append (counter_bytes_metric L i) s1 = Normal s2" and
    c: "counter_loop L rest s2 = Normal s'"
    by (auto dest!: then_do_Normal)
  from metrics_append_Normal [OF a] Cons.prems(2) obtain p where
    p: "counter_packets_metric L i = Inr p" and s1: "s1 = s\<lparr>ctx_metrics := Some (acc @ [p])\<rparr>"
    by auto
  from metrics_append_Normal [OF b] s1 obtain q where
    q: "counter_bytes_metric L i = Inr q" and s2: "s2 = s\<lparr>ctx_metrics := Some (acc @ [p, q])\<rparr>"
    by auto
  from Cons.IH [OF c, of "acc @ [p, q]"] s2 obtain pbs where
    r: "list_all2 (\<lambda>i pb. counter_packets_metric L i = Inr (fst pb) \<and>
                          counter_bytes_metric L i = Inr (snd pb)) rest pbs" and
    s': "s' = s2\<lparr>ctx_metrics := Some ((acc @ [p, q]) @ counter_lines pbs)\<rparr>"
    by auto
  have "list_all2 (\<lambda>i pb. counter_packets_metric L i = Inr (fst pb) \<and>
                          counter_bytes_metric L i = Inr (snd pb)) (i # rest) ((p, q) # pbs)"
    using p q r by simp
  moreover have "s' = s\<lparr>ctx_metrics := Some (acc @ counter_lines ((p, q) # pbs))\<rparr>"
    using s' s2 by (simp add: counter_lines_def)
  ultimately show ?case by blast
qed

lemma load_nft_ruleset_Normal:
  "load_nft_ruleset L r s = Normal s' \<Longrightarrow>
     \<exists>v. parse_ruleset L (nft_output r) = Inr v \<and> ctx_ruleset s' = v \<and>
         ctx_metrics s' = ctx_metrics s"
  by (auto simp: load_nft_ruleset_def Let_def logging_def split: sum.splits)

lemma find_objs_Inr:
  "find_objs type s = Inr objs \<Longrightarrow>
     \<exists>ents. py_iter (ctx_ruleset s) = Inr ents \<and> objs = kind_objs type ents"
  by (auto simp: find_objs_def rbind_def split: sum.splits dest: find_objs_loop_Inr)

lemma generate_table_metrics_Normal:
  "generate_table_metrics L s = Normal s' \<Longrightarrow> ctx_metrics s = Some acc \<Longrightarrow>
     py_iter (ctx_ruleset s) = Inr ents \<Longrightarrow>
     \<exists>lines. list_all2 (\<lambda>i l. table_metric L i = Inr l) (kind_objs ''table'' ents) lines \<and>
             s' = s\<lparr>ctx_metrics := Some (acc @ lines)\<rparr>"
  by (auto simp: generate_table_metrics_def split: sum.splits
           dest!: find_objs_Inr dest: table_loop_Normal)

lemma generate_chain_metrics_Normal:
  "generate_chain_metrics L s = Normal s' \<Longrightarrow> ctx_metrics s = Some acc \<Longrightarrow>
     py_iter (ctx_ruleset s) = Inr ents \<Longrightarrow>
     \<exists>lines. list_all2 (\<lambda>i l. chain_metric L i = Inr l) (kind_objs ''chain'' ents) lines \<and>
             s' = s\<lparr>ctx_metrics := Some (acc @ lines)\<rparr>"
  by (auto simp: generate_chain_metrics_def split: sum.splits
           dest!: find_objs_Inr dest: chain_loop_Normal)

lemma generate_counter_metrics_Normal:
  "generate_counter_metrics L s = Normal s' \<Longrightarrow> ctx_metrics s = Some acc \<Longrightarrow>
     py_iter (ctx_ruleset s) = Inr ents \<Longrightarrow>
     \<exists>pbs. list_all2 (\<lambda>i pb. counter_packets_metric L i = Inr (fst pb) \<and>
                              counter_bytes_metric L i = Inr (snd pb))
                     (kind_objs ''counter'' ents) pbs \<and>
           s' = s\<lparr>ctx_metrics := Some (acc @ counter_lines pbs)\<rparr>"
  by (auto simp: generate_counter_metrics_def split: sum.splits
           dest!: find_objs_Inr dest: counter_loop_Normal)

lemma generate_table_metrics_iter:
  "generate_table_metrics L s = Normal s' \<Longrightarrow> \<exists>ents. py_iter (ctx_ruleset s) = Inr ents"
  by (auto simp: generate_table_metrics_def split: sum.splits dest!: find_objs_Inr)

lemma generate_metrics_Normal:
  assumes "generate_metrics L r s = Normal s'"
  shows "\<exists>ents ts cs pbs.
           parse_ruleset L (nft_output r) = Inr (ctx_ruleset s') \<and>
           py_iter (ctx_ruleset s') = Inr ents \<and>
           list_all2 (\<lambda>i l. table_metric L i = Inr l) (kind_objs ''table'' ents) ts \<and>
           list_all2 (\<lambda>i l. chain_metric L i = Inr l) (kind_objs ''chain'' ents) cs \<and>
           list_all2 (\<lambda>i pb. counter_packets_metric L i = Inr (fst pb) \<and>
                              counter_bytes_metric L i = Inr (snd pb))
                     (kind_objs ''counter'' ents) pbs \<and>
           ctx_metrics s' = Some (ts @ cs @ counter_lines pbs)"
proof -
  from assms obtain s1 s2 s3 where
    l: "load_nft_ruleset L r (s\<lparr>ctx_metrics := Some []\<rparr>) = Normal s1" and
    t: "generate_table_metrics L s1 = Normal s2" and
    c: "generate_chain_metrics L s2 = Normal s3" and
    k: "generate_counter_metrics L s3 = Normal s'"
    unfolding generate_metrics_def by (auto dest!: then_do_Normal)
  from load_nft_ruleset_Normal [OF l] have
    p: "parse_ruleset L (nft_output r) = Inr (ctx_ruleset s1)" and m1: "ctx_metrics s1 = Some []"
    by auto
  from generate_table_metrics_iter [OF t] obtain ents where
    it: "py_iter (ctx_ruleset s1) = Inr ents" by blast
  from generate_table_metrics_Normal [OF t m1 it] obtain ts where
    ts: "list_all2 (\<lambda>i l. table_metric L i = Inr l) (kind_objs ''table'' ents) ts" and
    s2: "s2 = s1\<lparr>ctx_metrics := Some ts\<rparr>"
    by auto
  have m2: "ctx_metrics s2 = Some ts" and it2: "py_iter (ctx_ruleset s2) = Inr ents"
    using s2 it by simp_all
  from generate_chain_metrics_Normal [OF c m2 it2] obtain cs where
    cs: "list_all2 (\<lambda>i l. chain_metric L i = Inr l) (kind_objs ''chain'' ents) cs" and
    s3: "s3 = s2\<lparr>ctx_metrics := Some (ts @ cs)\<rparr>"
    by auto
  have m3: "ctx_metrics s3 = Some (ts @ cs)" and it3: "py_iter (ctx_ruleset s3) = Inr ents"
    using s3 it2 by simp_all
  from generate_counter_metrics_Normal [OF k m3 it3] obtain pbs where
    pbs: "list_all2 (\<lambda>i pb. counter_packets_metric L i = Inr (fst pb) \<and>
                            counter_bytes_metric L i = Inr (snd pb))
                   (kind_objs ''counter'' ents) pbs" and
    s': "s' = s3\<lparr>ctx_metrics := Some ((ts @ cs) @ counter_lines pbs)\<rparr>"
    by auto
  have "ctx_ruleset s' = ctx_ruleset s1" using s' s3 s2 by simp
  moreover have "ctx_metrics s' = Some (ts @ cs @ counter_lines pbs)" using s' by simp
  ultimately show ?thesis using p it ts cs pbs by auto
qed

lemma rbind_Inr: "rbind m f = Inr y \<Longrightarrow> \<exists>x. m = Inr x \<and> f x = Inr y"
  by (cases m) (auto simp: rbind_def)

lemma table_metric_name: "table_metric L i = Inr l \<Longrightarrow> metric_name l = ''nft_table''"
  by (auto simp: table_metric_def metric_name_def dest!: rbind_Inr)

lemma chain_metric_name: "chain_metric L i = Inr l \<Longrightarrow> metric_name l = ''nft_chain''"
  by (auto simp: chain_metric_def metric_name_def dest!: rbind_Inr)

lemma counter_packets_metric_name:
  "counter_packets_metric L i = Inr l \<Longrightarrow> metric_name l = ''nft_counter_packets''"
  by (auto simp: counter_packets_metric_def counter_metric_def metric_name_def dest!: rbind_Inr)

lemma counter_bytes_metric_name:
  "counter_bytes_metric L i = Inr l \<Longrightarrow> metric_name l = ''nft_counter_bytes''"
  by (auto simp: counter_bytes_metric_def counter_metric_def metric_name_def dest!: rbind_Inr)

lemma list_all2_names:
  "list_all2 (\<lambda>i l. f i = Inr l) objs ls \<Longrightarrow> (\<And>i l. f i = Inr l \<Longrightarrow> metric_name l = n) \<Longrightarrow>
     \<forall>l \<in> set ls. metric_name l = n"
  by (induction rule: list_all2_induct) auto

lemma counter_lines_names:
  "list_all2 (\<lambda>i pb. counter_packets_metric L i = Inr (fst pb) \<and>
                     counter_bytes_metric L i = Inr (snd pb)) objs pbs \<Longrightarrow>
   list_all (\<lambda>pb. metric_name (fst pb) = ''nft_counter_packets'' \<and>
                  metric_name (snd pb) = ''nft_counter_bytes'') pbs"
  by (induction rule: list_all2_induct)
     (auto dest: counter_packets_metric_name counter_bytes_metric_name)

lemma filter_counter_lines:
  "list_all (\<lambda>pb. metric_name (fst pb) = p \<and> metric_name (snd pb) = b) pbs \<Longrightarrow>
   filter (\<lambda>l. metric_name l = n) (counter_lines pbs) =
     (if n = p \<and> n = b then counter_lines pbs
      else if n = p then map fst pbs else if n = b then map snd pbs else [])"
  by (induction pbs) (auto simp: counter_lines_def)

lemma length_counter_lines: "length (counter_lines pbs) = 2 * length pbs"
  by (induction pbs) (auto simp: counter_lines_def)

lemma filter_all: "\<forall>x \<in> set xs. g x = n \<Longrightarrow> filter (\<lambda>x. g x = m) xs = (if m = n then xs else [])"
  by (induction xs) auto

lemma find_objs_loop_wf:
  "list_all wf_entity ents \<Longrightarrow> find_objs_loop type ents = Inr (kind_objs type ents)"
  by (induction ents) (auto simp: kind_objs_def wf_entity_def split: json.splits)

lemma map_of_key: "k \<in> fst ` set kvs \<Longrightarrow> \<exists>v. map_of kvs k = Some v"
  by (cases "map_of kvs k") (auto simp: map_of_eq_None_iff)

lemma getitem_has_fields:
  "has_fields v ks \<Longrightarrow> k \<in> set ks \<Longrightarrow> \<exists>x. py_getitem v k = Inr x"
proof -
  assume h: "has_fields v ks" and k: "k \<in> set ks"
  from h obtain kvs where v: "v = JObj kvs"
    by (cases v) (auto simp: has_fields_def)
  with h k have "k \<in> fst ` set kvs"
    by (auto simp: has_fields_def list_all_iff)
  from map_of_key [OF this] v show ?thesis by auto
qed

lemma getitem_kind:
  assumes "wf_entity i" "py_in kind i = Inr True"
  shows "\<exists>v. py_getitem i kind = Inr v \<and>
            (kind = ''table'' \<longrightarrow> has_fields v [''family'', ''name'']) \<and>
            (kind = ''chain'' \<longrightarrow> has_fields v [''family'', ''table'', ''name'']) \<and>
            (kind = ''counter'' \<longrightarrow>
               has_fields v [''family'', ''table'', ''name'', ''packets'', ''bytes''])"
proof -
  from assms(1) obtain kvs where i: "i = JObj kvs"
    by (cases i) (auto simp: wf_entity_def)
  with assms(2) have "kind \<in> fst ` set kvs" by simp
  from map_of_key [OF this] obtain v where v: "map_of kvs kind = Some v" by blast
  with assms(1) i show ?thesis
    by (auto simp: wf_entity_def field_ok_def)
qed

lemma table_metric_wf:
  assumes "wf_entity i" "py_in ''table'' i = Inr True"
  shows "\<exists>l. table_metric L i = Inr l"
proof -
  from getitem_kind [OF assms] obtain v where
    v: "py_getitem i ''table'' = Inr v" and h: "has_fields v [''family'', ''name'']"
    by auto
  from getitem_has_fields [OF h, of "''family''"] obtain f where "py_getitem v ''family'' = Inr f"
    by auto
  moreover from getitem_has_fields [OF h, of "''name''"] obtain n where "py_getitem v ''name'' = Inr n"
    by auto
  ultimately show ?thesis using v by (simp add: table_metric_def rbind_def)
qed

lemma chain_metric_wf:
  assumes "wf_entity i" "py_in ''chain'' i = Inr True"
  shows "\<exists>l. chain_metric L i = Inr l"
proof -
  from getitem_kind [OF assms] obtain v where
    v: "py_getitem i ''chain'' = Inr v" and h: "has_fields v [''family'', ''table'', ''name'']"
    by auto
  from getitem_has_fields [OF h, of "''family''"] obtain f where "py_getitem v ''family'' = Inr f"
    by auto
  moreover from getitem_has_fields [OF h, of "''table''"] obtain t where "py_getitem v ''table'' = Inr t"
    by auto
  moreover from getitem_has_fields [OF h, of "''name''"] obtain n where "py_getitem v ''name'' = Inr n"
    by auto
  ultimately show ?thesis using v by (simp add: chain_metric_def rbind_def)
qed

lemma counter_metric_wf:
  assumes "wf_entity i" "py_in ''counter'' i = Inr True" "field \<in> {''packets'', ''bytes''}"
  shows "\<exists>l. counter_metric L metric field i = Inr l"
proof -
  from getitem_kind [OF assms(1,2)] obtain v where
    v: "py_getitem i ''counter'' = Inr v" and
    h: "has_fields v [''family'', ''table'', ''name'', ''packets'', ''bytes'']"
    by auto
  from getitem_has_fields [OF h, of "''family''"] obtain f where "py_getitem v ''family'' = Inr f"
    by auto
  moreover from getitem_has_fields [OF h, of "''table''"] obtain t where "py_getitem v ''table'' = Inr t"
    by auto
  moreover from getitem_has_fields [OF h, of "''name''"] obtain n where "py_getitem v ''name'' = Inr n"
    by auto
  moreover from getitem_has_fields [OF h, of field] assms(3) obtain x where "py_getitem v field = Inr x"
    by auto
  ultimately show ?thesis using v by (simp add: counter_metric_def rbind_def)
qed

lemma table_loop_total:
  "list_all (\<lambda>i. \<exists>l. table_metric L i = Inr l) objs \<Longrightarrow> ctx_metrics s = Some acc \<Longrightarrow>
     \<exists>s'. table_loop L objs s = Normal s'"
proof (induction objs arbitrary: s acc)
  case Nil
  then show ?case by simp
next
  case (Cons i rest)
  from Cons.prems obtain l where l: "table_metric L i = Inr l" by auto
  let ?s1 = "s\<lparr>ctx_metrics := Some (acc @ [l])\<rparr>"
  have "metrics_append (table_metric L i) s = Normal ?s1"
    using l Cons.prems(2) by (simp add: metrics_append_def)
  moreover from Cons.IH [of ?s1 "acc @ [l]"] Cons.prems(1) obtain s' where
    "table_loop L rest ?s1 = Normal s'" by auto
  ultimately show ?case by (simp add: then_do_def)
qed

lemma chain_loop_total:
  "list_all (\<lambda>i. \<exists>l. chain_metric L i = Inr l) objs \<Longrightarrow> ctx_metrics s = Some acc \<Longrightarrow>
     \<exists>s'. chain_loop L objs s = Normal s'"
proof (induction objs arbitrary: s acc)
  case Nil
  then show ?case by simp
next
  case (Cons i rest)
  from Cons.prems obtain l where l: "chain_metric L i = Inr l" by auto
  let ?s1 = "s\<lparr>ctx_metrics := Some (acc @ [l])\<rparr>"
  have "metrics_append (chain_metric L i) s = Normal ?s1"
    using l Cons.prems(2) by (simp add: metrics_append_def)
  moreover from Cons.IH [of ?s1 "acc @ [l]"] Cons.prems(1) obtain s' where
    "chain_loop L rest ?s1 = Normal s'" by auto
  ultimately show ?case by (simp add: then_do_def)
qed

lemma counter_loop_total:
  "list_all (\<lambda>i. (\<exists>p. counter_packets_metric L i = Inr p) \<and>
                 (\<exists>b. counter_bytes_metric L i = Inr b)) objs \<Longrightarrow>
   ctx_metrics s = Some acc \<Longrightarrow> \<exists>s'. counter_loop L objs s = Normal s'"
proof (induction objs arbitrary: s acc)
  case Nil
  then show ?case by simp
next
  case (Cons i rest)
  from Cons.prems obtain p b where
    p: "counter_packets_metric L i = Inr p" and b: "counter_bytes_metric L i = Inr b" by auto
  let ?s1 = "s\<lparr>ctx_metrics := Some (acc @ [p])\<rparr>"
  let ?s2 = "s\<lparr>ctx_metrics := Some (acc @ [p, b])\<rparr>"
  have "metrics_append (counter_packets_metric L i) s = Normal ?s1"
    using p Cons.prems(2) by (simp add: metrics_append_def)
  moreover have "metrics_append (counter_bytes_metric L i) ?s1 = Normal ?s2"
    using b by (simp add: metrics_append_def)
  moreover from Cons.IH [of ?s2 "acc @ [p, b]"] Cons.prems(1) obtain s' where
    "counter_loop L rest ?s2 = Normal s'" by auto
  ultimately show ?case by (simp add: then_do_def)
qed

lemma kind_objs_set: "i \<in> set (kind_objs type ents) \<Longrightarrow> i \<in> set ents \<and> py_in type i = Inr True"
  by (simp add: kind_objs_def)

lemma generate_metrics_total:
  assumes p: "parse_ruleset L (nft_output r) = Inr v" and it: "py_iter v = Inr ents"
    and wf: "list_all wf_entity ents"
  shows "\<exists>s'. generate_metrics L r s = Normal s'"
proof -
  obtain s1 where l: "load_nft_ruleset L r (s\<lparr>ctx_metrics := Some []\<rparr>) = Normal s1"
    and r1: "ctx_ruleset s1 = v" and m1: "ctx_metrics s1 = Some []"
    using p by (simp add: load_nft_ruleset_def Let_def logging_def)
  have f: "\<And>type s. ctx_ruleset s = v \<Longrightarrow> find_objs type s = Inr (kind_objs type ents)"
    using it wf by (simp add: find_objs_def rbind_def find_objs_loop_wf)
  have "list_all (\<lambda>i. \<exists>l. table_metric L i = Inr l) (kind_objs ''table'' ents)"
    using wf by (auto simp: list_all_iff dest!: kind_objs_set intro: table_metric_wf)
  from table_loop_total [OF this m1] obtain s2 where
    t: "table_loop L (kind_objs ''table'' ents) s1 = Normal s2" by blast
  from table_loop_Normal [OF t m1] obtain ts where s2: "s2 = s1\<lparr>ctx_metrics := Some ts\<rparr>"
    by auto
  have m2: "ctx_metrics s2 = Some ts" and r2: "ctx_ruleset s2 = v" using s2 r1 by simp_all
  have "list_all (\<lambda>i. \<exists>l. chain_metric L i = Inr l) (kind_objs ''chain'' ents)"
    using wf by (auto simp: list_all_iff dest!: kind_objs_set intro: chain_metric_wf)
  from chain_loop_total [OF this m2] obtain s3 where
    c: "chain_loop L (kind_objs ''chain'' ents) s2 = Normal s3" by blast
  from chain_loop_Normal [OF c m2] obtain cs where s3: "s3 = s2\<lparr>ctx_metrics := Some (ts @ cs)\<rparr>"
    by auto
  have m3: "ctx_metrics s3 = Some (ts @ cs)" and r3: "ctx_ruleset s3 = v" using s3 r2 by simp_all
  have "list_all (\<lambda>i. (\<exists>p. counter_packets_metric L i = Inr p) \<and>
                      (\<exists>b. counter_bytes_metric L i = Inr b)) (kind_objs ''counter'' ents)"
    using wf
    by (auto simp: list_all_iff counter_packets_metric_def counter_bytes_metric_def
             dest!: kind_objs_set intro: counter_metric_wf)
  from counter_loop_total [OF this m3] obtain s4 where
    k: "counter_loop L (kind_objs ''counter'' ents) s3 = Normal s4" by blast
  have "generate_metrics L r s = Normal s4"
    using l t c k f [OF r1] f [OF r2] f [OF r3]
    by (simp add: generate_metrics_def then_do_def generate_table_metrics_def
                  generate_chain_metrics_def generate_counter_metrics_def)
  then show ?thesis by blast
qed

lemma parse_mixed:
  "parse_ruleset sample_lib (nft_output mixed_reply) =
     Inr (JArr [counter_entity, metainfo_entity, chain_entity, table_entity])"
  by (simp add: parse_ruleset_def sample_lib_def sample_loads_def mixed_reply_def rbind_def)

lemma digits_42: "digits_of 42 = ''42''" by simp

lemma digits_1000: "digits_of 1000 = ''1000''" by code_simp

lemma ev_table: \<open>table_metric sample_lib table_entity = Inr ''nft_table{family="ip", name="filter"} 1''\<close>
  by (simp add: table_metric_def table_entity_def rbind_def)

lemma ev_chain: \<open>chain_metric sample_lib chain_entity = Inr ''nft_chain{family="ip", table="filter", name="input"} 1''\<close>
  by (simp add: chain_metric_def chain_entity_def rbind_def)

lemma ev_packets: \<open>counter_packets_metric sample_lib counter_entity = Inr ''nft_counter_packets{family="inet", table="t1", name="c1"} 42''\<close>
  by (simp add: counter_packets_metric_def counter_metric_def counter_entity_def rbind_def str_of_int_def digits_42 del: digits_of.simps)

lemma ev_bytes: \<open>counter_bytes_metric sample_lib counter_entity = Inr ''nft_counter_bytes{family="inet", table="t1", name="c1"} 1000''\<close>
  by (simp add: counter_bytes_metric_def counter_metric_def counter_entity_def rbind_def str_of_int_def digits_1000 del: digits_of.simps)

lemma ev_in:
  "py_in ''table'' counter_entity = Inr False" "py_in ''table'' metainfo_entity = Inr False"
  "py_in ''table'' chain_entity = Inr False" "py_in ''table'' table_entity = Inr True"
  "py_in ''chain'' counter_entity = Inr False" "py_in ''chain'' metainfo_entity = Inr False"
  "py_in ''chain'' chain_entity = Inr True" "py_in ''chain'' table_entity = Inr False"
  "py_in ''counter'' counter_entity = Inr True" "py_in ''counter'' metainfo_entity = Inr False"
  "py_in ''counter'' chain_entity = Inr False" "py_in ''counter'' table_entity = Inr False"
  by (simp_all add: counter_entity_def metainfo_entity_def chain_entity_def table_entity_def)

lemma ev_generate_mixed:
  \<open>generate_metrics sample_lib mixed_reply s =
     Normal (s\<lparr>ctx_ruleset := JArr [counter_entity, metainfo_entity, chain_entity, table_entity],
               ctx_metrics := Some [''nft_table{family="ip", name="filter"} 1'',
                                    ''nft_chain{family="ip", table="filter", name="input"} 1'',
                                    ''nft_counter_packets{family="inet", table="t1", name="c1"} 42'',
                                    ''nft_counter_bytes{family="inet", table="t1", name="c1"} 1000''],
               logged := logged s @ [(DEBUG, ''loading nft ruleset''), (DEBUG, nft_output mixed_reply)]\<rparr>)\<close>
  by (simp add: generate_metrics_def load_nft_ruleset_def parse_mixed Let_def logging_def
        then_do_def generate_table_metrics_def generate_chain_metrics_def
        generate_counter_metrics_def find_objs_def rbind_def ev_in ev_table ev_chain ev_packets
        ev_bytes metrics_append_def)
     (simp add: mixed_reply_def)

text \<open>
  C1. When \<^verbatim>\<open>generate_metrics\<close> returns on a snapshot with N table entities, M chain
  entities and K counter entities, \<^verbatim>\<open>ctx.metrics\<close> holds N lines named \<^verbatim>\<open>nft_table\<close>, M
  lines named \<^verbatim>\<open>nft_chain\<close>, K lines named \<^verbatim>\<open>nft_counter_packets\<close>, K lines named
  \<^verbatim>\<open>nft_counter_bytes\<close> and N + M + 2K lines in all, so an entity of another kind adds no
  line. And it does return on every snapshot that is a list of well-formed entities, of
  any kinds.
\<close>

theorem flattener_record_counts:
  "(generate_metrics L r s = Normal s' \<longrightarrow>
      (\<exists>ents ms.
         py_iter (ctx_ruleset s') = Inr ents \<and> ctx_metrics s' = Some ms \<and>
         length (filter (\<lambda>l. metric_name l = ''nft_table'') ms) = length (kind_objs ''table'' ents) \<and>
         length (filter (\<lambda>l. metric_name l = ''nft_chain'') ms) = length (kind_objs ''chain'' ents) \<and>
         length (filter (\<lambda>l. metric_name l = ''nft_counter_packets'') ms)
           = length (kind_objs ''counter'' ents) \<and>
         length (filter (\<lambda>l. metric_name l = ''nft_counter_bytes'') ms)
           = length (kind_objs ''counter'' ents) \<and>
         length ms = length (kind_objs ''table'' ents) + length (kind_objs ''chain'' ents)
                     + 2 * length (kind_objs ''counter'' ents))) \<and>
   (parse_ruleset L (nft_output r) = Inr (JArr ents0) \<and> list_all wf_entity ents0 \<longrightarrow>
      (\<exists>s1. generate_metrics L r s = Normal s1 \<and> ctx_ruleset s1 = JArr ents0))"
proof (intro conjI impI)
  assume g: "generate_metrics L r s = Normal s'"
  from generate_metrics_Normal [OF g] obtain ents ts cs pbs where
    it: "py_iter (ctx_ruleset s') = Inr ents" and
    ts: "list_all2 (\<lambda>i l. table_metric L i = Inr l) (kind_objs ''table'' ents) ts" and
    cs: "list_all2 (\<lambda>i l. chain_metric L i = Inr l) (kind_objs ''chain'' ents) cs" and
    pbs: "list_all2 (\<lambda>i pb. counter_packets_metric L i = Inr (fst pb) \<and>
                            counter_bytes_metric L i = Inr (snd pb))
                   (kind_objs ''counter'' ents) pbs" and
    ms: "ctx_metrics s' = Some (ts @ cs @ counter_lines pbs)"
    by blast
  have nt: "\<forall>l \<in> set ts. metric_name l = ''nft_table''"
    using list_all2_names [OF ts] table_metric_name by blast
  have nc: "\<forall>l \<in> set cs. metric_name l = ''nft_chain''"
    using list_all2_names [OF cs] chain_metric_name by blast
  note nk = counter_lines_names [OF pbs]
  have lt: "length ts = length (kind_objs ''table'' ents)"
    using ts by (simp add: list_all2_lengthD)
  have lc: "length cs = length (kind_objs ''chain'' ents)"
    using cs by (simp add: list_all2_lengthD)
  have lk: "length pbs = length (kind_objs ''counter'' ents)"
    using pbs by (simp add: list_all2_lengthD)
  have "length (filter (\<lambda>l. metric_name l = ''nft_table'') (ts @ cs @ counter_lines pbs))
          = length (kind_objs ''table'' ents)"
    by (simp add: filter_all [OF nt] filter_all [OF nc] filter_counter_lines [OF nk] lt)
  moreover
  have "length (filter (\<lambda>l. metric_name l = ''nft_chain'') (ts @ cs @ counter_lines pbs))
          = length (kind_objs ''chain'' ents)"
    by (simp add: filter_all [OF nt] filter_all [OF nc] filter_counter_lines [OF nk] lc)
  moreover
  have "length (filter (\<lambda>l. metric_name l = ''nft_counter_packets'') (ts @ cs @ counter_lines pbs))
          = length (kind_objs ''counter'' ents)"
    by (simp add: filter_all [OF nt] filter_all [OF nc] filter_counter_lines [OF nk] lk)
  moreover
  have "length (filter (\<lambda>l. metric_name l = ''nft_counter_bytes'') (ts @ cs @ counter_lines pbs))
          = length (kind_objs ''counter'' ents)"
    by (simp add: filter_all [OF nt] filter_all [OF nc] filter_counter_lines [OF nk] lk)
  moreover
  have "length (ts @ cs @ counter_lines pbs)
          = length (kind_objs ''table'' ents) + length (kind_objs ''chain'' ents)
            + 2 * length (kind_objs ''counter'' ents)"
    by (simp add: lt lc lk length_counter_lines)
  ultimately show "\<exists>ents ms.
         py_iter (ctx_ruleset s') = Inr ents \<and> ctx_metrics s' = Some ms \<and>
         length (filter (\<lambda>l. metric_name l = ''nft_table'') ms) = length (kind_objs ''table'' ents) \<and>
         length (filter (\<lambda>l. metric_name l = ''nft_chain'') ms) = length (kind_objs ''chain'' ents) \<and>
         length (filter (\<lambda>l. metric_name l = ''nft_counter_packets'') ms)
           = length (kind_objs ''counter'' ents) \<and>
         length (filter (\<lambda>l. metric_name l = ''nft_counter_bytes'') ms)
           = length (kind_objs ''counter'' ents) \<and>
         length ms = length (kind_objs ''table'' ents) + length (kind_objs ''chain'' ents)
                     + 2 * length (kind_objs ''counter'' ents)"
    using it ms by blast
next
  assume a: "parse_ruleset L (nft_output r) = Inr (JArr ents0) \<and> list_all wf_entity ents0"
  then have p: "parse_ruleset L (nft_output r) = Inr (JArr ents0)" and wf: "list_all wf_entity ents0"
    by simp_all
  have it: "py_iter (JArr ents0) = Inr ents0" by simp
  from generate_metrics_total [OF p it wf] obtain s1 where
    g: "generate_metrics L r s = Normal s1" by blast
  from generate_metrics_Normal [OF g] p have "ctx_ruleset s1 = JArr ents0" by auto
  with g show "\<exists>s1. generate_metrics L r s = Normal s1 \<and> ctx_ruleset s1 = JArr ents0" by blast
qed

lemma wf_samples:
  "wf_entity counter_entity" "wf_entity metainfo_entity" "wf_entity chain_entity"
  "wf_entity table_entity"
  by (simp_all add: wf_entity_def field_ok_def has_fields_def counter_entity_def
        metainfo_entity_def chain_entity_def table_entity_def)

lemma kind_objs_mixed:
  "kind_objs ''table'' [counter_entity, metainfo_entity, chain_entity, table_entity] = [table_entity]"
  "kind_objs ''chain'' [counter_entity, metainfo_entity, chain_entity, table_entity] = [chain_entity]"
  "kind_objs ''counter'' [counter_entity, metainfo_entity, chain_entity, table_entity] = [counter_entity]"
  by (simp_all add: kind_objs_def ev_in)

lemma ev_generate_mixed_Context:
  "generate_metrics sample_lib mixed_reply Context = Normal mixed_final"
  by (simp add: ev_generate_mixed Context_def mixed_final_def)

theorem flattener_record_counts_witness:
  "generate_metrics sample_lib mixed_reply Context = Normal mixed_final \<and>
   parse_ruleset sample_lib (nft_output mixed_reply)
     = Inr (JArr [counter_entity, metainfo_entity, chain_entity, table_entity]) \<and>
   list_all wf_entity [counter_entity, metainfo_entity, chain_entity, table_entity] \<and>
   (\<exists>ents ms.
      py_iter (ctx_ruleset mixed_final) = Inr ents \<and> ctx_metrics mixed_final = Some ms \<and>
      length (filter (\<lambda>l. metric_name l = ''nft_table'') ms) = length (kind_objs ''table'' ents) \<and>
      length (filter (\<lambda>l. metric_name l = ''nft_chain'') ms) = length (kind_objs ''chain'' ents) \<and>
      length (filter (\<lambda>l. metric_name l = ''nft_counter_packets'') ms)
        = length (kind_objs ''counter'' ents) \<and>
      length (filter (\<lambda>l. metric_name l = ''nft_counter_bytes'') ms)
        = length (kind_objs ''counter'' ents) \<and>
      length ms = length (kind_objs ''table'' ents) + length (kind_objs ''chain'' ents)
                  + 2 * length (kind_objs ''counter'' ents)) \<and>
   length (kind_objs ''counter'' [counter_entity, metainfo_entity, chain_entity, table_entity]) = 1"
  using flattener_record_counts [of sample_lib mixed_reply Context mixed_final
          "[counter_entity, metainfo_entity, chain_entity, table_entity]"]
  by (auto simp: ev_generate_mixed_Context parse_mixed wf_samples kind_objs_mixed)

lemma counter_lines_set:
  "list_all (\<lambda>pb. metric_name (fst pb) = p \<and> metric_name (snd pb) = b) pbs \<Longrightarrow>
     \<forall>l \<in> set (counter_lines pbs). metric_name l = p \<or> metric_name l = b"
  by (induction pbs) (auto simp: counter_lines_def)

lemma filter_none: "\<forall>x \<in> set xs. \<not> P x \<Longrightarrow> filter P xs = []"
  by (induction xs) auto

lemma filter_every: "\<forall>x \<in> set xs. P x \<Longrightarrow> filter P xs = xs"
  by (induction xs) auto

text \<open>
  C9. The output of the flattener is grouped by kind: it is the \<^verbatim>\<open>nft_table\<close> lines of the
  table entities, then the \<^verbatim>\<open>nft_chain\<close> lines of the chain entities, then the lines of the
  counter entities, whatever the order of the kinds in the snapshot. Inside each group
  the entities are taken in snapshot order (\<open>kind_objs\<close> is a filter of the snapshot),
  and each counter gives its \<^verbatim>\<open>nft_counter_packets\<close> line immediately followed by its
  \<^verbatim>\<open>nft_counter_bytes\<close> line.
\<close>

theorem flattener_groups_by_kind:
  assumes "generate_metrics L r s = Normal s'"
  shows "\<exists>ents ts cs pbs.
           py_iter (ctx_ruleset s') = Inr ents \<and>
           ctx_metrics s' = Some (ts @ cs @ concat (map (\<lambda>pb. [fst pb, snd pb]) pbs)) \<and>
           list_all2 (\<lambda>i l. table_metric L i = Inr l \<and> metric_name l = ''nft_table'')
                     (filter (\<lambda>obj. py_in ''table'' obj = Inr True) ents) ts \<and>
           list_all2 (\<lambda>i l. chain_metric L i = Inr l \<and> metric_name l = ''nft_chain'')
                     (filter (\<lambda>obj. py_in ''chain'' obj = Inr True) ents) cs \<and>
           list_all2 (\<lambda>i pb. counter_packets_metric L i = Inr (fst pb) \<and>
                              metric_name (fst pb) = ''nft_counter_packets'' \<and>
                              counter_bytes_metric L i = Inr (snd pb) \<and>
                              metric_name (snd pb) = ''nft_counter_bytes'')
                     (filter (\<lambda>obj. py_in ''counter'' obj = Inr True) ents) pbs"
proof -
  from generate_metrics_Normal [OF assms] obtain ents ts cs pbs where
    it: "py_iter (ctx_ruleset s') = Inr ents" and
    ts: "list_all2 (\<lambda>i l. table_metric L i = Inr l) (kind_objs ''table'' ents) ts" and
    cs: "list_all2 (\<lambda>i l. chain_metric L i = Inr l) (kind_objs ''chain'' ents) cs" and
    pbs: "list_all2 (\<lambda>i pb. counter_packets_metric L i = Inr (fst pb) \<and>
                            counter_bytes_metric L i = Inr (snd pb))
                   (kind_objs ''counter'' ents) pbs" and
    ms: "ctx_metrics s' = Some (ts @ cs @ counter_lines pbs)"
    by blast
  have "list_all2 (\<lambda>i l. table_metric L i = Inr l \<and> metric_name l = ''nft_table'')
          (filter (\<lambda>obj. py_in ''table'' obj = Inr True) ents) ts"
    using ts unfolding kind_objs_def
    by (rule list_all2_mono) (simp add: table_metric_name)
  moreover
  have "list_all2 (\<lambda>i l. chain_metric L i = Inr l \<and> metric_name l = ''nft_chain'')
          (filter (\<lambda>obj. py_in ''chain'' obj = Inr True) ents) cs"
    using cs unfolding kind_objs_def
    by (rule list_all2_mono) (simp add: chain_metric_name)
  moreover
  have "list_all2 (\<lambda>i pb. counter_packets_metric L i = Inr (fst pb) \<and>
                          metric_name (fst pb) = ''nft_counter_packets'' \<and>
                          counter_bytes_metric L i = Inr (snd pb) \<and>
                          metric_name (snd pb) = ''nft_counter_bytes'')
          (filter (\<lambda>obj. py_in ''counter'' obj = Inr True) ents) pbs"
    using pbs unfolding kind_objs_def
    by (rule list_all2_mono) (auto dest: counter_packets_metric_name counter_bytes_metric_name)
  ultimately show ?thesis
    using it ms unfolding counter_lines_def by blast
qed

lemma mixed_final_ruleset:
  "ctx_ruleset mixed_final = JArr [counter_entity, metainfo_entity, chain_entity, table_entity]"
  by (simp add: mixed_final_def)

theorem flattener_groups_by_kind_witness:
  \<open>generate_metrics sample_lib mixed_reply Context = Normal mixed_final \<and>
   ctx_ruleset mixed_final = JArr [counter_entity, metainfo_entity, chain_entity, table_entity] \<and>
   (\<exists>ts cs pbs.
      ctx_metrics mixed_final = Some (ts @ cs @ concat (map (\<lambda>pb. [fst pb, snd pb]) pbs)) \<and>
      list_all2 (\<lambda>i l. table_metric sample_lib i = Inr l \<and> metric_name l = ''nft_table'')
                [table_entity] ts \<and>
      list_all2 (\<lambda>i l. chain_metric sample_lib i = Inr l \<and> metric_name l = ''nft_chain'')
                [chain_entity] cs \<and>
      list_all2 (\<lambda>i pb. counter_packets_metric sample_lib i = Inr (fst pb) \<and>
                         metric_name (fst pb) = ''nft_counter_packets'' \<and>
                         counter_bytes_metric sample_lib i = Inr (snd pb) \<and>
                         metric_name (snd pb) = ''nft_counter_bytes'')
                [counter_entity] pbs)\<close>
  using flattener_groups_by_kind [of sample_lib mixed_reply Context mixed_final]
  by (auto simp: ev_generate_mixed_Context ev_in mixed_final_ruleset)

lemma parse_interleaved:
  "parse_ruleset sample_lib (nft_output interleaved_reply) =
     Inr (JArr [counter_entity, table_entity, chain_entity,
                counter_c2_entity, table_nat_entity, chain_output_entity])"
  by (simp add: parse_ruleset_def sample_lib_def sample_loads_def interleaved_reply_def rbind_def)

lemma digits_7: "digits_of 7 = ''7''" by simp

lemma digits_300: "digits_of 300 = ''300''" by code_simp

lemma ev_table_nat:
  \<open>table_metric sample_lib table_nat_entity = Inr ''nft_table{family="inet", name="nat"} 1''\<close>
  by (simp add: table_metric_def table_nat_entity_def rbind_def)

lemma ev_chain_output:
  \<open>chain_metric sample_lib chain_output_entity
     = Inr ''nft_chain{family="inet", table="nat", name="output"} 1''\<close>
  by (simp add: chain_metric_def chain_output_entity_def rbind_def)

lemma ev_packets_c2:
  \<open>counter_packets_metric sample_lib counter_c2_entity
     = Inr ''nft_counter_packets{family="ip", table="filter", name="c2"} 7''\<close>
  by (simp add: counter_packets_metric_def counter_metric_def counter_c2_entity_def rbind_def
        str_of_int_def digits_7 del: digits_of.simps)

lemma ev_bytes_c2:
  \<open>counter_bytes_metric sample_lib counter_c2_entity
     = Inr ''nft_counter_bytes{family="ip", table="filter", name="c2"} 300''\<close>
  by (simp add: counter_bytes_metric_def counter_metric_def counter_c2_entity_def rbind_def
        str_of_int_def digits_300 del: digits_of.simps)

lemma ev_in2:
  "py_in ''table'' counter_c2_entity = Inr False" "py_in ''table'' chain_output_entity = Inr False"
  "py_in ''table'' table_nat_entity = Inr True"
  "py_in ''chain'' counter_c2_entity = Inr False" "py_in ''chain'' chain_output_entity = Inr True"
  "py_in ''chain'' table_nat_entity = Inr False"
  "py_in ''counter'' counter_c2_entity = Inr True" "py_in ''counter'' chain_output_entity = Inr False"
  "py_in ''counter'' table_nat_entity = Inr False"
  by (simp_all add: counter_c2_entity_def chain_output_entity_def table_nat_entity_def)

lemma ev_generate_interleaved_Context:
  "generate_metrics sample_lib interleaved_reply Context = Normal interleaved_final"
  by (simp add: generate_metrics_def load_nft_ruleset_def parse_interleaved Let_def logging_def
        then_do_def generate_table_metrics_def generate_chain_metrics_def
        generate_counter_metrics_def find_objs_def rbind_def ev_in ev_in2 ev_table ev_chain
        ev_packets ev_bytes ev_table_nat ev_chain_output ev_packets_c2 ev_bytes_c2
        metrics_append_def Context_def interleaved_final_def)
     (simp add: interleaved_reply_def)

lemma interleaved_final_ruleset:
  "ctx_ruleset interleaved_final
     = JArr [counter_entity, table_entity, chain_entity,
             counter_c2_entity, table_nat_entity, chain_output_entity]"
  by (simp add: interleaved_final_def)

text \<open>
  C5, as stated, fails. In the snapshot \<open>[counter, metainfo, chain, table]\<close> the counter
  comes first and the table last, yet the table's line is the first line of the output
  and the counter's two lines are the last: the output is not the entities' records in
  order of appearance.
\<close>

theorem order_of_appearance_counterexample:
  \<open>parse_ruleset sample_lib (nft_output mixed_reply)
     = Inr (JArr [counter_entity, metainfo_entity, chain_entity, table_entity]) \<and>
   metrics_of (generate_metrics sample_lib mixed_reply Context)
     = Some [''nft_table{family="ip", name="filter"} 1'',
             ''nft_chain{family="ip", table="filter", name="input"} 1'',
             ''nft_counter_packets{family="inet", table="t1", name="c1"} 42'',
             ''nft_counter_bytes{family="inet", table="t1", name="c1"} 1000''] \<and>
   in_snapshot_order sample_lib [counter_entity, metainfo_entity, chain_entity, table_entity]
     = [''nft_counter_packets{family="inet", table="t1", name="c1"} 42'',
        ''nft_counter_bytes{family="inet", table="t1", name="c1"} 1000'',
        ''nft_chain{family="ip", table="filter", name="input"} 1'',
        ''nft_table{family="ip", name="filter"} 1''] \<and>
   metrics_of (generate_metrics sample_lib mixed_reply Context)
     \<noteq> Some (in_snapshot_order sample_lib
               [counter_entity, metainfo_entity, chain_entity, table_entity])\<close>
proof -
  have m: \<open>metrics_of (generate_metrics sample_lib mixed_reply Context)
     = Some [''nft_table{family="ip", name="filter"} 1'',
             ''nft_chain{family="ip", table="filter", name="input"} 1'',
             ''nft_counter_packets{family="inet", table="t1", name="c1"} 42'',
             ''nft_counter_bytes{family="inet", table="t1", name="c1"} 1000'']\<close>
    by (simp add: ev_generate_mixed_Context metrics_of_def mixed_final_def)
  have e1: "entity_records sample_lib metainfo_entity = []"
    by (simp add: entity_records_def metainfo_entity_def table_metric_def chain_metric_def
          counter_packets_metric_def counter_metric_def rbind_def)
  have e2: \<open>entity_records sample_lib table_entity = [''nft_table{family="ip", name="filter"} 1'']\<close>
    by (simp add: entity_records_def ev_table)
       (simp add: table_entity_def chain_metric_def counter_packets_metric_def
          counter_metric_def rbind_def)
  have e3: \<open>entity_records sample_lib chain_entity =
              [''nft_chain{family="ip", table="filter", name="input"} 1'']\<close>
    by (simp add: entity_records_def ev_chain)
       (simp add: chain_entity_def table_metric_def counter_packets_metric_def
          counter_metric_def rbind_def)
  have e4: \<open>entity_records sample_lib counter_entity =
              [''nft_counter_packets{family="inet", table="t1", name="c1"} 42'',
               ''nft_counter_bytes{family="inet", table="t1", name="c1"} 1000'']\<close>
    by (simp add: entity_records_def ev_packets ev_bytes)
       (simp add: counter_entity_def table_metric_def chain_metric_def rbind_def)
  have o: \<open>in_snapshot_order sample_lib [counter_entity, metainfo_entity, chain_entity, table_entity]
     = [''nft_counter_packets{family="inet", table="t1", name="c1"} 42'',
        ''nft_counter_bytes{family="inet", table="t1", name="c1"} 1000'',
        ''nft_chain{family="ip", table="filter", name="input"} 1'',
        ''nft_table{family="ip", name="filter"} 1'']\<close>
    by (simp add: in_snapshot_order_def e1 e2 e3 e4)
  show ?thesis
    unfolding m o by (simp add: parse_mixed)
qed

text \<open>
  C5, amended. The records of each kind follow the order of appearance of the entities
  of that kind. The \<^verbatim>\<open>nft_table\<close> lines of the output, read in order, are the table lines
  of the entities tagged \<^verbatim>\<open>table\<close>, read in snapshot order; the \<^verbatim>\<open>nft_chain\<close> lines are
  the chain lines of the entities tagged \<^verbatim>\<open>chain\<close>, read in snapshot order; and the
  \<^verbatim>\<open>nft_counter_packets\<close> and \<^verbatim>\<open>nft_counter_bytes\<close> lines of the output are, for the
  entities tagged \<^verbatim>\<open>counter\<close> read in snapshot order, the packets line of each followed by
  its bytes line. So when A appears before B and both carry the tag of one kind, every
  record of that kind extracted from A comes before every record of that kind extracted
  from B. Nothing is said about records of different kinds.
\<close>

theorem order_of_appearance_within_kind:
  assumes "generate_metrics L r s = Normal s'"
  shows "\<exists>ents ms pbs.
           py_iter (ctx_ruleset s') = Inr ents \<and> ctx_metrics s' = Some ms \<and>
           list_all2 (\<lambda>i l. table_metric L i = Inr l)
                     (filter (\<lambda>obj. py_in ''table'' obj = Inr True) ents)
                     (filter (\<lambda>l. metric_name l = ''nft_table'') ms) \<and>
           list_all2 (\<lambda>i l. chain_metric L i = Inr l)
                     (filter (\<lambda>obj. py_in ''chain'' obj = Inr True) ents)
                     (filter (\<lambda>l. metric_name l = ''nft_chain'') ms) \<and>
           list_all2 (\<lambda>i pb. counter_packets_metric L i = Inr (fst pb) \<and>
                              counter_bytes_metric L i = Inr (snd pb))
                     (filter (\<lambda>obj. py_in ''counter'' obj = Inr True) ents) pbs \<and>
           filter (\<lambda>l. metric_name l = ''nft_counter_packets'' \<or>
                       metric_name l = ''nft_counter_bytes'') ms
             = concat (map (\<lambda>pb. [fst pb, snd pb]) pbs)"
proof -
  from generate_metrics_Normal [OF assms] obtain ents ts cs pbs where
    it: "py_iter (ctx_ruleset s') = Inr ents" and
    ts: "list_all2 (\<lambda>i l. table_metric L i = Inr l) (kind_objs ''table'' ents) ts" and
    cs: "list_all2 (\<lambda>i l. chain_metric L i = Inr l) (kind_objs ''chain'' ents) cs" and
    pbs: "list_all2 (\<lambda>i pb. counter_packets_metric L i = Inr (fst pb) \<and>
                            counter_bytes_metric L i = Inr (snd pb))
                   (kind_objs ''counter'' ents) pbs" and
    ms: "ctx_metrics s' = Some (ts @ cs @ counter_lines pbs)"
    by blast
  have nt: "\<forall>l \<in> set ts. metric_name l = ''nft_table''"
    using list_all2_names [OF ts] table_metric_name by blast
  have nc: "\<forall>l \<in> set cs. metric_name l = ''nft_chain''"
    using list_all2_names [OF cs] chain_metric_name by blast
  note nk = counter_lines_names [OF pbs]
  note nks = counter_lines_set [OF nk]
  have ft: "filter (\<lambda>l. metric_name l = ''nft_table'') (ts @ cs @ counter_lines pbs) = ts"
    by (simp add: filter_all [OF nt] filter_all [OF nc] filter_counter_lines [OF nk])
  have fc: "filter (\<lambda>l. metric_name l = ''nft_chain'') (ts @ cs @ counter_lines pbs) = cs"
    by (simp add: filter_all [OF nt] filter_all [OF nc] filter_counter_lines [OF nk])
  have "filter (\<lambda>l. metric_name l = ''nft_counter_packets'' \<or>
                    metric_name l = ''nft_counter_bytes'') ts = []"
    using nt by (intro filter_none) auto
  moreover
  have "filter (\<lambda>l. metric_name l = ''nft_counter_packets'' \<or>
                    metric_name l = ''nft_counter_bytes'') cs = []"
    using nc by (intro filter_none) auto
  moreover
  have "filter (\<lambda>l. metric_name l = ''nft_counter_packets'' \<or>
                    metric_name l = ''nft_counter_bytes'') (counter_lines pbs) = counter_lines pbs"
    using nks by (intro filter_every) auto
  ultimately
  have fk: "filter (\<lambda>l. metric_name l = ''nft_counter_packets'' \<or>
                        metric_name l = ''nft_counter_bytes'') (ts @ cs @ counter_lines pbs)
              = counter_lines pbs"
    by simp
  show ?thesis
    using it ms ts cs pbs ft fc fk unfolding kind_objs_def counter_lines_def
    by (intro exI [of _ ents] exI [of _ "ts @ cs @ concat (map (\<lambda>pb. [fst pb, snd pb]) pbs)"]
              exI [of _ pbs]) simp
qed

theorem order_of_appearance_within_kind_witness:
  \<open>generate_metrics sample_lib interleaved_reply Context = Normal interleaved_final \<and>
   ctx_ruleset interleaved_final
     = JArr [counter_entity, table_entity, chain_entity,
             counter_c2_entity, table_nat_entity, chain_output_entity] \<and>
   ctx_metrics interleaved_final
     = Some [''nft_table{family="ip", name="filter"} 1'',
             ''nft_table{family="inet", name="nat"} 1'',
             ''nft_chain{family="ip", table="filter", name="input"} 1'',
             ''nft_chain{family="inet", table="nat", name="output"} 1'',
             ''nft_counter_packets{family="inet", table="t1", name="c1"} 42'',
             ''nft_counter_bytes{family="inet", table="t1", name="c1"} 1000'',
             ''nft_counter_packets{family="ip", table="filter", name="c2"} 7'',
             ''nft_counter_bytes{family="ip", table="filter", name="c2"} 300''] \<and>
   (\<exists>ms pbs.
      ctx_metrics interleaved_final = Some ms \<and>
      list_all2 (\<lambda>i l. table_metric sample_lib i = Inr l) [table_entity, table_nat_entity]
                (filter (\<lambda>l. metric_name l = ''nft_table'') ms) \<and>
      list_all2 (\<lambda>i l. chain_metric sample_lib i = Inr l) [chain_entity, chain_output_entity]
                (filter (\<lambda>l. metric_name l = ''nft_chain'') ms) \<and>
      list_all2 (\<lambda>i pb. counter_packets_metric sample_lib i = Inr (fst pb) \<and>
                         counter_bytes_metric sample_lib i = Inr (snd pb))
                [counter_entity, counter_c2_entity] pbs \<and>
      filter (\<lambda>l. metric_name l = ''nft_counter_packets'' \<or>
                  metric_name l = ''nft_counter_bytes'') ms
        = concat (map (\<lambda>pb. [fst pb, snd pb]) pbs)) \<and>
   filter (\<lambda>l. metric_name l = ''nft_table'')
     [''nft_table{family="ip", name="filter"} 1'',
      ''nft_table{family="inet", name="nat"} 1'',
      ''nft_chain{family="ip", table="filter", name="input"} 1'',
      ''nft_chain{family="inet", table="nat", name="output"} 1'',
      ''nft_counter_packets{family="inet", table="t1", name="c1"} 42'',
      ''nft_counter_bytes{family="inet", table="t1", name="c1"} 1000'',
      ''nft_counter_packets{family="ip", table="filter", name="c2"} 7'',
      ''nft_counter_bytes{family="ip", table="filter", name="c2"} 300'']
     = [''nft_table{family="ip", name="filter"} 1'', ''nft_table{family="inet", name="nat"} 1''] \<and>
   table_metric sample_lib table_entity = Inr ''nft_table{family="ip", name="filter"} 1'' \<and>
   table_metric sample_lib table_nat_entity = Inr ''nft_table{family="inet", name="nat"} 1''\<close>
proof -
  have f: \<open>filter (\<lambda>l. metric_name l = ''nft_table'')
     [''nft_table{family="ip", name="filter"} 1'',
      ''nft_table{family="inet", name="nat"} 1'',
      ''nft_chain{family="ip", table="filter", name="input"} 1'',
      ''nft_chain{family="inet", table="nat", name="output"} 1'',
      ''nft_counter_packets{family="inet", table="t1", name="c1"} 42'',
      ''nft_counter_bytes{family="inet", table="t1", name="c1"} 1000'',
      ''nft_counter_packets{family="ip", table="filter", name="c2"} 7'',
      ''nft_counter_bytes{family="ip", table="filter", name="c2"} 300'']
     = [''nft_table{family="ip", name="filter"} 1'', ''nft_table{family="inet", name="nat"} 1'']\<close>
    by (simp add: metric_name_def)
  have m: \<open>ctx_metrics interleaved_final
     = Some [''nft_table{family="ip", name="filter"} 1'',
             ''nft_table{family="inet", name="nat"} 1'',
             ''nft_chain{family="ip", table="filter", name="input"} 1'',
             ''nft_chain{family="inet", table="nat", name="output"} 1'',
             ''nft_counter_packets{family="inet", table="t1", name="c1"} 42'',
             ''nft_counter_bytes{family="inet", table="t1", name="c1"} 1000'',
             ''nft_counter_packets{family="ip", table="filter", name="c2"} 7'',
             ''nft_counter_bytes{family="ip", table="filter", name="c2"} 300'']\<close>
    by (simp add: interleaved_final_def)
  have k: "\<exists>ms pbs.
      ctx_metrics interleaved_final = Some ms \<and>
      list_all2 (\<lambda>i l. table_metric sample_lib i = Inr l) [table_entity, table_nat_entity]
                (filter (\<lambda>l. metric_name l = ''nft_table'') ms) \<and>
      list_all2 (\<lambda>i l. chain_metric sample_lib i = Inr l) [chain_entity, chain_output_entity]
                (filter (\<lambda>l. metric_name l = ''nft_chain'') ms) \<and>
      list_all2 (\<lambda>i pb. counter_packets_metric sample_lib i = Inr (fst pb) \<and>
                         counter_bytes_metric sample_lib i = Inr (snd pb))
                [counter_entity, counter_c2_entity] pbs \<and>
      filter (\<lambda>l. metric_name l = ''nft_counter_packets'' \<or>
                  metric_name l = ''nft_counter_bytes'') ms
        = concat (map (\<lambda>pb. [fst pb, snd pb]) pbs)"
    using order_of_appearance_within_kind [of sample_lib interleaved_reply Context interleaved_final]
    by (auto simp: ev_generate_interleaved_Context ev_in ev_in2 interleaved_final_ruleset)
  show ?thesis
    using k m f
    by (simp add: ev_generate_interleaved_Context interleaved_final_ruleset ev_table ev_table_nat)
qed

lemma try_block_Normal:
  "generate_metrics L r s = Normal s' \<Longrightarrow>
     \<exists>ms. ctx_metrics s' = Some ms \<and>
          try_block L r s =
            ([Status 200, Header ''Content-Type'' (CONTENT_TYPE_LATEST L), EndHeaders,
              Body (py_join ''\<newline>'' ms)], Normal s')"
  by (auto simp: try_block_def encode_utf8_def dest: generate_metrics_Normal)

lemma sample_paths:
  "urlparse_path sample_lib ''/metrics'' = Inr ''/metrics''"
  "urlparse_path sample_lib ''/'' = Inr ''/''"
  "urlparse_path sample_lib ''/favicon.ico'' = Inr ''/favicon.ico''"
  "urlparse_path sample_lib ''/metrics?x=y'' = Inr ''/metrics''"
  "urlparse_path sample_lib ''http://[::1/metrics'' = Inl ValueError"
  by (simp_all add: sample_lib_def)

lemma sample_content_type:
  "CONTENT_TYPE_LATEST sample_lib = ''text/plain; version=0.0.4; charset=utf-8''"
  by (simp add: sample_lib_def)

text \<open>
  C2, as stated, fails: not every request gets one of the three responses. For the
  request target \<^verbatim>\<open>http://[::1/metrics\<close> the call of \<^verbatim>\<open>urlparse\<close> raises \<^verbatim>\<open>ValueError\<close>
  before any routing; the handler sends nothing, neither a status line nor a body, and
  the exception leaves \<^verbatim>\<open>do_GET\<close>.
\<close>

theorem do_GET_routes_counterexample:
  "urlparse_path sample_lib ''http://[::1/metrics'' = Inl ValueError \<and>
   do_GET sample_lib mixed_reply ''http://[::1/metrics'' Context = ([], Raised ValueError Context)"
  by (simp add: do_GET_def sample_paths)

text \<open>
  C2, amended. For every request whose target \<^verbatim>\<open>urlparse\<close> splits without raising, the
  handler routes on the path component. On \<^verbatim>\<open>/metrics\<close>, when \<^verbatim>\<open>generate_metrics\<close> returns,
  it sends status 200, the header \<^verbatim>\<open>Content-Type\<close> with the exposition content type, and
  the metric lines joined by newlines. On \<^verbatim>\<open>/\<close> it sends status 200 and the static page,
  whatever the engine would answer and leaving the state as it was. On any other path
  it sends status 404 and no body.
\<close>

theorem do_GET_routes:
  "(urlparse_path L path = Inr ''/metrics'' \<and> generate_metrics L r s = Normal s' \<longrightarrow>
      (\<exists>ms. ctx_metrics s' = Some ms \<and>
            do_GET L r path s =
              ([Status 200, Header ''Content-Type'' (CONTENT_TYPE_LATEST L), EndHeaders,
                Body (py_join ''\<newline>'' ms)], Normal s'))) \<and>
   (urlparse_path L path = Inr ''/'' \<longrightarrow>
      do_GET L r path s = ([Status 200, EndHeaders, Body index_page], Normal s)) \<and>
   (urlparse_path L path = Inr other \<and> other \<noteq> ''/metrics'' \<and> other \<noteq> ''/'' \<longrightarrow>
      do_GET L r path s = ([Status 404, EndHeaders], Normal s))"
proof (intro conjI impI)
  assume a: "urlparse_path L path = Inr ''/metrics'' \<and> generate_metrics L r s = Normal s'"
  then have "do_GET L r path s = try_block L r s"
    by (simp add: do_GET_def)
  with try_block_Normal [of L r s s'] a
  show "\<exists>ms. ctx_metrics s' = Some ms \<and>
            do_GET L r path s =
              ([Status 200, Header ''Content-Type'' (CONTENT_TYPE_LATEST L), EndHeaders,
                Body (py_join ''\<newline>'' ms)], Normal s')"
    by simp
next
  assume "urlparse_path L path = Inr ''/''"
  then show "do_GET L r path s = ([Status 200, EndHeaders, Body index_page], Normal s)"
    by (simp add: do_GET_def encode_utf8_def)
next
  assume "urlparse_path L path = Inr other \<and> other \<noteq> ''/metrics'' \<and> other \<noteq> ''/''"
  then show "do_GET L r path s = ([Status 404, EndHeaders], Normal s)"
    by (simp add: do_GET_def)
qed

lemma join_mixed_lines:
  \<open>py_join ''\<newline>''
     [''nft_table{family="ip", name="filter"} 1'',
      ''nft_chain{family="ip", table="filter", name="input"} 1'',
      ''nft_counter_packets{family="inet", table="t1", name="c1"} 42'',
      ''nft_counter_bytes{family="inet", table="t1", name="c1"} 1000'']
   = ''nft_table{family="ip", name="filter"} 1\<newline>nft_chain{family="ip", table="filter", name="input"} 1\<newline>nft_counter_packets{family="inet", table="t1", name="c1"} 42\<newline>nft_counter_bytes{family="inet", table="t1", name="c1"} 1000''\<close>
  by simp

lemma mixed_final_metrics:
  \<open>ctx_metrics mixed_final
     = Some [''nft_table{family="ip", name="filter"} 1'',
             ''nft_chain{family="ip", table="filter", name="input"} 1'',
             ''nft_counter_packets{family="inet", table="t1", name="c1"} 42'',
             ''nft_counter_bytes{family="inet", table="t1", name="c1"} 1000'']\<close>
  by (simp add: mixed_final_def)

theorem do_GET_routes_witness:
  \<open>urlparse_path sample_lib ''/metrics'' = Inr ''/metrics'' \<and>
   generate_metrics sample_lib mixed_reply Context = Normal mixed_final \<and>
   do_GET sample_lib mixed_reply ''/metrics'' Context =
     ([Status 200, Header ''Content-Type'' ''text/plain; version=0.0.4; charset=utf-8'',
       EndHeaders,
       Body ''nft_table{family="ip", name="filter"} 1\<newline>nft_chain{family="ip", table="filter", name="input"} 1\<newline>nft_counter_packets{family="inet", table="t1", name="c1"} 42\<newline>nft_counter_bytes{family="inet", table="t1", name="c1"} 1000''],
      Normal mixed_final) \<and>
   urlparse_path sample_lib ''/'' = Inr ''/'' \<and>
   do_GET sample_lib mixed_reply ''/'' Context
     = ([Status 200, EndHeaders, Body index_page], Normal Context) \<and>
   urlparse_path sample_lib ''/favicon.ico'' = Inr ''/favicon.ico'' \<and>
   ''/favicon.ico'' \<noteq> ''/metrics'' \<and> ''/favicon.ico'' \<noteq> ''/'' \<and>
   do_GET sample_lib mixed_reply ''/favicon.ico'' Context
     = ([Status 404, EndHeaders], Normal Context)\<close>
  using do_GET_routes [of sample_lib "''/metrics''" mixed_reply Context mixed_final "''/favicon.ico''"]
        do_GET_routes [of sample_lib "''/''" mixed_reply Context mixed_final "''/favicon.ico''"]
        do_GET_routes [of sample_lib "''/favicon.ico''" mixed_reply Context mixed_final
                          "''/favicon.ico''"]
  by (simp add: sample_paths ev_generate_mixed_Context sample_content_type mixed_final_metrics
        join_mixed_lines del: py_join.simps)

text \<open>
  C10. Two request targets with the same path component get the same response: nothing
  but \<^verbatim>\<open>urlparse(self.path).path\<close> is read from the target, so a query string or a
  fragment changes nothing.
\<close>

theorem do_GET_ignores_query:
  "urlparse_path L p = urlparse_path L q \<Longrightarrow> do_GET L r p s = do_GET L r q s"
  by (simp add: do_GET_def)

theorem do_GET_ignores_query_witness:
  "urlparse_path sample_lib ''/metrics?x=y'' = urlparse_path sample_lib ''/metrics'' \<and>
   ''/metrics?x=y'' \<noteq> ''/metrics'' \<and>
   do_GET sample_lib mixed_reply ''/metrics?x=y'' Context
     = do_GET sample_lib mixed_reply ''/metrics'' Context"
  using do_GET_ignores_query [of sample_lib "''/metrics?x=y''" "''/metrics''" mixed_reply Context]
  by (simp add: sample_paths)

lemma find_objs_loop_none:
  "list_all (\<lambda>e. py_in type e = Inr False) ents \<Longrightarrow> find_objs_loop type ents = Inr []"
  by (induction ents) auto

lemma generate_metrics_no_entities:
  assumes p: "parse_ruleset L (nft_output r) = Inr (JArr ents)"
    and n: "list_all (\<lambda>e. py_in ''table'' e = Inr False \<and> py_in ''chain'' e = Inr False \<and>
                          py_in ''counter'' e = Inr False) ents"
  shows "\<exists>s'. generate_metrics L r s = Normal s' \<and> ctx_metrics s' = Some []"
proof -
  have t: "find_objs_loop ''table'' ents = Inr []"
    using n by (intro find_objs_loop_none) (simp add: list_all_iff)
  have c: "find_objs_loop ''chain'' ents = Inr []"
    using n by (intro find_objs_loop_none) (simp add: list_all_iff)
  have k: "find_objs_loop ''counter'' ents = Inr []"
    using n by (intro find_objs_loop_none) (simp add: list_all_iff)
  show ?thesis
    using p t c k
    by (simp add: generate_metrics_def load_nft_ruleset_def Let_def logging_def then_do_def
          generate_table_metrics_def generate_chain_metrics_def generate_counter_metrics_def
          find_objs_def rbind_def)
qed

text \<open>
  C7. When the engine reports status 0 and the ruleset it lists holds no table, chain or
  counter (in particular when it holds no entity at all), the scrape succeeds:
  \<^verbatim>\<open>GET /metrics\<close> answers 200 with an empty body, and the run-once mode prints an empty
  line and exits with status 0.
\<close>

theorem empty_ruleset_is_not_an_error:
  assumes "nft_rc r = 0"
    and "parse_ruleset L (nft_output r) = Inr (JArr ents)"
    and "list_all (\<lambda>e. py_in ''table'' e = Inr False \<and> py_in ''chain'' e = Inr False \<and>
                       py_in ''counter'' e = Inr False) ents"
    and "urlparse_path L path = Inr ''/metrics''"
  shows "(\<exists>s'. do_GET L r path s =
                 ([Status 200, Header ''Content-Type'' (CONTENT_TYPE_LATEST L), EndHeaders,
                   Body ''''], Normal s')) \<and>
         run_once L r s = (''\<newline>'', 0)"
proof -
  from generate_metrics_no_entities [OF assms(2,3)] obtain s' where
    g: "generate_metrics L r s = Normal s'" and m: "ctx_metrics s' = Some []"
    by blast
  have "do_GET L r path s = try_block L r s"
    using assms(4) by (simp add: do_GET_def)
  with try_block_Normal [OF g] m
  have "do_GET L r path s =
          ([Status 200, Header ''Content-Type'' (CONTENT_TYPE_LATEST L), EndHeaders, Body ''''],
           Normal s')"
    by simp
  moreover have "run_once L r s = (''\<newline>'', 0)"
    using g m by (simp add: run_once_def)
  ultimately show ?thesis by blast
qed

lemma parse_empty:
  "parse_ruleset sample_lib (nft_output empty_reply) = Inr (JArr [])"
  by (simp add: parse_ruleset_def sample_lib_def sample_loads_def empty_reply_def rbind_def)

theorem empty_ruleset_is_not_an_error_witness:
  "nft_rc empty_reply = 0 \<and>
   parse_ruleset sample_lib (nft_output empty_reply) = Inr (JArr []) \<and>
   urlparse_path sample_lib ''/metrics'' = Inr ''/metrics'' \<and>
   (\<exists>s'. do_GET sample_lib empty_reply ''/metrics'' Context =
            ([Status 200, Header ''Content-Type'' (CONTENT_TYPE_LATEST sample_lib), EndHeaders,
              Body ''''], Normal s')) \<and>
   run_once sample_lib empty_reply Context = (''\<newline>'', 0)"
  using empty_ruleset_is_not_an_error [of empty_reply sample_lib "[]" "''/metrics''" Context]
  by (simp add: parse_empty sample_paths) (simp add: empty_reply_def)

lemma then_do_same:
  "same_outcome m n \<Longrightarrow> (\<And>s t. same_ctx s t \<Longrightarrow> same_outcome (f s) (g t)) \<Longrightarrow>
     same_outcome (then_do m f) (then_do n g)"
  by (cases m; cases n) (auto simp: then_do_def)

lemma metrics_append_same:
  "same_ctx s t \<Longrightarrow> same_outcome (metrics_append arg s) (metrics_append arg t)"
  by (auto simp: metrics_append_def same_ctx_def split: option.splits sum.splits)

lemma table_loop_same:
  "same_ctx s t \<Longrightarrow> same_outcome (table_loop L objs s) (table_loop L objs t)"
proof (induction objs arbitrary: s t)
  case Nil
  then show ?case by simp
next
  case (Cons i rest)
  show ?case
    unfolding table_loop.simps
    by (rule then_do_same [OF metrics_append_same [OF Cons.prems]]) (rule Cons.IH)
qed

lemma chain_loop_same:
  "same_ctx s t \<Longrightarrow> same_outcome (chain_loop L objs s) (chain_loop L objs t)"
proof (induction objs arbitrary: s t)
  case Nil
  then show ?case by simp
next
  case (Cons i rest)
  show ?case
    unfolding chain_loop.simps
    by (rule then_do_same [OF metrics_append_same [OF Cons.prems]]) (rule Cons.IH)
qed

lemma counter_loop_same:
  "same_ctx s t \<Longrightarrow> same_outcome (counter_loop L objs s) (counter_loop L objs t)"
proof (induction objs arbitrary: s t)
  case Nil
  then show ?case by simp
next
  case (Cons i rest)
  show ?case
  proof -
    have "same_outcome
            (then_do (metrics_append (counter_packets_metric L i) s)
                     (metrics_append (counter_bytes_metric L i)))
            (then_do (metrics_append (counter_packets_metric L i) t)
                     (metrics_append (counter_bytes_metric L i)))"
      by (rule then_do_same [OF metrics_append_same [OF Cons.prems]])
         (rule metrics_append_same)
    then show ?thesis
      unfolding counter_loop.simps by (rule then_do_same) (rule Cons.IH)
  qed
qed

lemma find_objs_same: "same_ctx s t \<Longrightarrow> find_objs type s = find_objs type t"
  by (simp add: find_objs_def same_ctx_def)

lemma generate_table_metrics_same:
  "same_ctx s t \<Longrightarrow> same_outcome (generate_table_metrics L s) (generate_table_metrics L t)"
  by (auto simp: generate_table_metrics_def find_objs_same [of s t] table_loop_same
           split: sum.splits)

lemma generate_chain_metrics_same:
  "same_ctx s t \<Longrightarrow> same_outcome (generate_chain_metrics L s) (generate_chain_metrics L t)"
  by (auto simp: generate_chain_metrics_def find_objs_same [of s t] chain_loop_same
           split: sum.splits)

lemma generate_counter_metrics_same:
  "same_ctx s t \<Longrightarrow> same_outcome (generate_counter_metrics L s) (generate_counter_metrics L t)"
  by (auto simp: generate_counter_metrics_def find_objs_same [of s t] counter_loop_same
           split: sum.splits)

lemma load_nft_ruleset_same:
  "ctx_metrics s = ctx_metrics t \<Longrightarrow>
     same_outcome (load_nft_ruleset L r s) (load_nft_ruleset L r t)"
  by (auto simp: load_nft_ruleset_def Let_def logging_def same_ctx_def split: sum.splits)

lemma generate_metrics_same:
  "same_outcome (generate_metrics L r s) (generate_metrics L r t)"
  unfolding generate_metrics_def
  by (intro then_do_same load_nft_ruleset_same generate_table_metrics_same
            generate_chain_metrics_same generate_counter_metrics_same) simp_all

lemma try_block_same: "fst (try_block L r s) = fst (try_block L r t)"
  using generate_metrics_same [of L r s t]
  by (cases "generate_metrics L r s"; cases "generate_metrics L r t")
     (auto simp: try_block_def except_branch_def same_ctx_def Let_def encode_utf8_def
           split: option.splits)

text \<open>
  C8. What a scrape sends or prints is a function of the engine's reply alone: the
  response of \<^verbatim>\<open>GET /metrics\<close> and the output of the run-once mode are the same from any
  two states of \<^verbatim>\<open>ctx\<close>, so also from the state that an earlier scrape, successful or not,
  has left behind.
\<close>

theorem scrape_twice_same_bytes:
  "fst (do_GET L r path (final_state (snd (do_GET L r path s)))) = fst (do_GET L r path s) \<and>
   fst (do_GET L r path s) = fst (do_GET L r path t) \<and>
   run_once L r s = run_once L r t"
proof -
  have d: "\<And>s t. fst (do_GET L r path s) = fst (do_GET L r path t)"
    by (simp add: do_GET_def encode_utf8_def try_block_same split: sum.splits)
  have "run_once L r s = run_once L r t"
    using generate_metrics_same [of L r s t]
    by (cases "generate_metrics L r s"; cases "generate_metrics L r t")
       (auto simp: run_once_def same_ctx_def split: option.splits)
  with d [of "final_state (snd (do_GET L r path s))" s] d [of s t] show ?thesis
    by simp
qed

text \<open>
  C6, as stated, fails: a table named \<^verbatim>\<open>a"b\<close> is rendered with the double quote as it
  is, where the escaping rule asks for a backslash before it.
\<close>

theorem label_escaping_counterexample:
  \<open>table_metric sample_lib quoted_table_entity = Inr ''nft_table{family="ip", name="a"b"} 1'' \<and>
   escape_label_value ''a"b'' = [CHR ''a'', CHR 0x5C, CHR 0x22, CHR ''b''] \<and>
   table_metric sample_lib quoted_table_entity
     \<noteq> Inr (''nft_table{family="'' @ escape_label_value ''ip'' @ ''", name="''
             @ escape_label_value ''a"b'' @ ''"} 1'')\<close>
  by (simp add: table_metric_def quoted_table_entity_def rbind_def escape_label_value_def)

text \<open>
  C6, amended. The label values are put into the line as they are, with no escaping:
  for string-valued fields the line of a table, a chain or a counter is the fixed text of
  the format with the field values in between, whatever characters they hold.
\<close>

theorem label_values_verbatim:
  \<open>(map_of e ''table'' = Some (JObj fs) \<and> map_of fs ''family'' = Some (JStr family) \<and>
    map_of fs ''name'' = Some (JStr name) \<longrightarrow>
      table_metric L (JObj e)
        = Inr (''nft_table{family="'' @ family @ ''", name="'' @ name @ ''"} 1'')) \<and>
   (map_of e ''chain'' = Some (JObj fs) \<and> map_of fs ''family'' = Some (JStr family) \<and>
    map_of fs ''table'' = Some (JStr table) \<and> map_of fs ''name'' = Some (JStr name) \<longrightarrow>
      chain_metric L (JObj e)
        = Inr (''nft_chain{family="'' @ family @ ''", table="'' @ table @ ''", name="'' @ name
               @ ''"} 1'')) \<and>
   (map_of e ''counter'' = Some (JObj fs) \<and> map_of fs ''family'' = Some (JStr family) \<and>
    map_of fs ''table'' = Some (JStr table) \<and> map_of fs ''name'' = Some (JStr name) \<and>
    map_of fs ''packets'' = Some (JInt packets) \<and> map_of fs ''bytes'' = Some (JInt bytes) \<longrightarrow>
      counter_packets_metric L (JObj e)
        = Inr (''nft_counter_packets{family="'' @ family @ ''", table="'' @ table
               @ ''", name="'' @ name @ ''"} '' @ str_of_int packets) \<and>
      counter_bytes_metric L (JObj e)
        = Inr (''nft_counter_bytes{family="'' @ family @ ''", table="'' @ table
               @ ''", name="'' @ name @ ''"} '' @ str_of_int bytes))\<close>
  by (simp add: table_metric_def chain_metric_def counter_packets_metric_def
        counter_bytes_metric_def counter_metric_def rbind_def)

theorem label_values_verbatim_witness:
  \<open>map_of [(''table'', JObj [(''family'', JStr ''ip''), (''name'', JStr ''a"b'')])] ''table''
     = Some (JObj [(''family'', JStr ''ip''), (''name'', JStr ''a"b'')]) \<and>
   map_of [(''family'', JStr ''ip''), (''name'', JStr ''a"b'')] ''family'' = Some (JStr ''ip'') \<and>
   map_of [(''family'', JStr ''ip''), (''name'', JStr ''a"b'')] ''name'' = Some (JStr ''a"b'') \<and>
   table_metric sample_lib quoted_table_entity = Inr ''nft_table{family="ip", name="a"b"} 1'' \<and>
   map_of [(''chain'', JObj [(''family'', JStr ''ip''), (''table'', JStr ''filter''),
                            (''name'', JStr ''input'')])] ''chain''
     = Some (JObj [(''family'', JStr ''ip''), (''table'', JStr ''filter''),
                   (''name'', JStr ''input'')]) \<and>
   chain_metric sample_lib chain_entity
     = Inr ''nft_chain{family="ip", table="filter", name="input"} 1'' \<and>
   map_of [(''counter'', JObj [(''family'', JStr ''inet''), (''table'', JStr ''t1''),
                              (''name'', JStr ''c1''), (''packets'', JInt 42),
                              (''bytes'', JInt 1000)])] ''counter''
     = Some (JObj [(''family'', JStr ''inet''), (''table'', JStr ''t1''),
                   (''name'', JStr ''c1''), (''packets'', JInt 42), (''bytes'', JInt 1000)]) \<and>
   counter_packets_metric sample_lib counter_entity
     = Inr (''nft_counter_packets{family="inet", table="t1", name="c1"} '' @ str_of_int 42) \<and>
   counter_bytes_metric sample_lib counter_entity
     = Inr (''nft_counter_bytes{family="inet", table="t1", name="c1"} '' @ str_of_int 1000)\<close>
  using label_values_verbatim [of "[(''table'', JObj [(''family'', JStr ''ip''), (''name'', JStr ''a\"b'')])]"
          "[(''family'', JStr ''ip''), (''name'', JStr ''a\"b'')]" "''ip''" "''a\"b''" sample_lib]
        label_values_verbatim [of "[(''chain'', JObj [(''family'', JStr ''ip''), (''table'', JStr ''filter''),
                            (''name'', JStr ''input'')])]"
          "[(''family'', JStr ''ip''), (''table'', JStr ''filter''), (''name'', JStr ''input'')]"
          "''ip''" "''input''" sample_lib "''filter''"]
        label_values_verbatim [of "[(''counter'', JObj [(''family'', JStr ''inet''), (''table'', JStr ''t1''),
                              (''name'', JStr ''c1''), (''packets'', JInt 42),
                              (''bytes'', JInt 1000)])]"
          "[(''family'', JStr ''inet''), (''table'', JStr ''t1''),
                   (''name'', JStr ''c1''), (''packets'', JInt 42), (''bytes'', JInt 1000)]"
          "''inet''" "''c1''" sample_lib "''t1''" 42 1000]
  by (simp add: quoted_table_entity_def chain_entity_def counter_entity_def
           del: digits_of.simps)

lemma load_nft_ruleset_ignores_rc:
  "same_outcome (load_nft_ruleset L r s) (load_nft_ruleset L (r\<lparr>nft_rc := 0\<rparr>) s)"
  by (auto simp: load_nft_ruleset_def Let_def logging_def same_ctx_def split: sum.splits)

lemma do_GET_metrics_Raised:
  "urlparse_path L path = Inr ''/metrics'' \<Longrightarrow> generate_metrics L r s = Raised e s' \<Longrightarrow>
     do_GET L r path s = ([Status 500, EndHeaders], Raised TypeError s')"
  by (simp add: do_GET_def try_block_def except_branch_def)

lemma parse_failed: "parse_ruleset sample_lib (nft_output failed_reply) = Inl JSONDecodeError"
  by (simp add: parse_ruleset_def sample_lib_def sample_loads_def failed_reply_def rbind_def)

lemma parse_failed_with_output:
  "parse_ruleset sample_lib (nft_output failed_reply_with_output) = Inr (JArr [])"
  by (simp add: parse_ruleset_def sample_lib_def sample_loads_def failed_reply_with_output_def
        rbind_def)

lemma ev_generate_failed:
  "generate_metrics sample_lib failed_reply Context =
     Raised JSONDecodeError
       \<lparr>ctx_ruleset = JNull, ctx_metrics = Some [],
        logged = [(DEBUG, ''loading nft ruleset''), (ERROR, ''Operation not permitted''),
                  (DEBUG, '''')]\<rparr>"
  by (simp add: generate_metrics_def load_nft_ruleset_def parse_failed Let_def logging_def
        then_do_def Context_def)
     (simp add: failed_reply_def)

lemma ev_generate_failed_with_output:
  \<open>generate_metrics sample_lib failed_reply_with_output Context =
     Normal
       \<lparr>ctx_ruleset = JArr [], ctx_metrics = Some [],
        logged = [(DEBUG, ''loading nft ruleset''), (ERROR, ''Operation not permitted''),
                  (DEBUG, ''{"nftables": []}'')]\<rparr>\<close>
  by (simp add: generate_metrics_def load_nft_ruleset_def parse_failed_with_output Let_def
        logging_def then_do_def Context_def generate_table_metrics_def
        generate_chain_metrics_def generate_counter_metrics_def find_objs_def rbind_def)
     (simp add: failed_reply_with_output_def)

text \<open>
  C3, on the code. The engine reports status 1 with the diagnostic
  \<^verbatim>\<open>Operation not permitted\<close>. \<^verbatim>\<open>load_nft_ruleset\<close> logs the diagnostic and goes on to
  parse the output. With an empty output the exception it raises is the parser's, and the
  diagnostic is in the log only. With an output that parses, the load returns, the
  response is 200 and the run-once mode exits with status 0.
\<close>

theorem load_goes_on_after_engine_failure:
  \<open>nft_rc failed_reply \<noteq> 0 \<and>
   load_nft_ruleset sample_lib failed_reply Context =
     Raised JSONDecodeError
       \<lparr>ctx_ruleset = JNull, ctx_metrics = None,
        logged = [(DEBUG, ''loading nft ruleset''), (ERROR, ''Operation not permitted''),
                  (DEBUG, '''')]\<rparr> \<and>
   nft_rc failed_reply_with_output \<noteq> 0 \<and>
   load_nft_ruleset sample_lib failed_reply_with_output Context =
     Normal
       \<lparr>ctx_ruleset = JArr [], ctx_metrics = None,
        logged = [(DEBUG, ''loading nft ruleset''), (ERROR, ''Operation not permitted''),
                  (DEBUG, ''{"nftables": []}'')]\<rparr> \<and>
   fst (do_GET sample_lib failed_reply_with_output ''/metrics'' Context) =
     [Status 200, Header ''Content-Type'' ''text/plain; version=0.0.4; charset=utf-8'',
      EndHeaders, Body ''''] \<and>
   run_once sample_lib failed_reply_with_output Context = (''\<newline>'', 0)\<close>
proof -
  have a: "nft_rc failed_reply \<noteq> 0" "nft_rc failed_reply_with_output \<noteq> 0"
    by (simp_all add: failed_reply_def failed_reply_with_output_def)
  have b: "load_nft_ruleset sample_lib failed_reply Context =
     Raised JSONDecodeError
       \<lparr>ctx_ruleset = JNull, ctx_metrics = None,
        logged = [(DEBUG, ''loading nft ruleset''), (ERROR, ''Operation not permitted''),
                  (DEBUG, '''')]\<rparr>"
    by (simp add: load_nft_ruleset_def parse_failed Let_def logging_def Context_def)
       (simp add: failed_reply_def)
  have c: \<open>load_nft_ruleset sample_lib failed_reply_with_output Context =
     Normal
       \<lparr>ctx_ruleset = JArr [], ctx_metrics = None,
        logged = [(DEBUG, ''loading nft ruleset''), (ERROR, ''Operation not permitted''),
                  (DEBUG, ''{"nftables": []}'')]\<rparr>\<close>
    by (simp add: load_nft_ruleset_def parse_failed_with_output Let_def logging_def Context_def)
       (simp add: failed_reply_with_output_def)
  have d: "fst (do_GET sample_lib failed_reply_with_output ''/metrics'' Context) =
     [Status 200, Header ''Content-Type'' ''text/plain; version=0.0.4; charset=utf-8'',
      EndHeaders, Body '''']"
    by (simp add: do_GET_def sample_paths try_block_def ev_generate_failed_with_output
          encode_utf8_def sample_content_type)
  have e: "run_once sample_lib failed_reply_with_output Context = (''\<newline>'', 0)"
    by (simp add: run_once_def ev_generate_failed_with_output)
  from a b c d e show ?thesis by simp
qed

text \<open>
  C4, on the code. \<^verbatim>\<open>GET /metrics\<close> while the engine fails: the handler sends status 500
  and ends the headers, then \<^verbatim>\<open>wfile.write\<close> is given the \<^verbatim>\<open>str\<close> of
  \<^verbatim>\<open>traceback.format_exc()\<close> and raises \<^verbatim>\<open>TypeError\<close>. No body is sent, and the
  \<^verbatim>\<open>TypeError\<close> leaves \<^verbatim>\<open>do_GET\<close>.
\<close>

theorem error_response_has_no_body:
  "do_GET sample_lib failed_reply ''/metrics'' Context =
     ([Status 500, EndHeaders],
      Raised TypeError
        \<lparr>ctx_ruleset = JNull, ctx_metrics = Some [],
         logged = [(DEBUG, ''loading nft ruleset''), (ERROR, ''Operation not permitted''),
                   (DEBUG, '''')]\<rparr>)"
  by (simp add: do_GET_def sample_paths try_block_def except_branch_def ev_generate_failed)

end
